theory Spec2Isabelle
  imports Main "HOL-Library.Word"
begin

section \<open>Go values shared by the hooks\<close>

type_synonym bytes = string

text \<open>Go \<open>error\<close> values. \<open>ErrProposedBlockChoiceNotReady\<close> is the sentinel of
  \<open>tmconsensus\<close>; \<open>Wrap\<close> is \<open>fmt.Errorf("...: %w", err)\<close>.\<close>

datatype err = ErrProposedBlockChoiceNotReady | Err string | Wrap string err

text \<open>A call either returns or panics.\<close>

datatype 'a go_result = Returned 'a | Panicked string

text \<open>A \<open>gcrypto.PubKey\<close> interface value: \<open>None\<close> is the nil interface, \<open>Some k\<close> a key
  with bytes \<open>k\<close>.\<close>

type_synonym PubKey = "bytes option"

record Validator =
  PubKey :: PubKey
  Power :: "64 word"

record ValidatorSet =
  Validators :: "Validator list"

record VoteSummary =
  AvailablePower :: "64 word"
  PrevoteBlockPower :: "string \<rightharpoonup> 64 word"
  MostVotedPrevoteHash :: string

record Annotations =
  User :: bytes
  Driver :: bytes

record Header =
  Height :: "64 word"
  DataID :: bytes
  Hash :: bytes
  Annotations :: Annotations

record ProposedHeader =
  Header :: Header
  Round :: "32 word"
  ProposerPubKey :: PubKey
  Annotations :: Annotations

record RoundView =
  Height :: "64 word"
  Round :: "32 word"
  ValidatorSet :: ValidatorSet
  ProposedHeaders :: "ProposedHeader list"

record Proposal =
  DataID :: string
  BlockAnnotations :: Annotations
  ProposalAnnotations :: Annotations

text \<open>\<open>BlockAnnotation\<close> and \<open>ProposalDriverAnnotation\<close>, the two JSON payloads.\<close>

record BlockAnnotation =
  TimeS :: string

record ProposalDriverAnnotation =
  Locations :: "string list"

text \<open>A record of the retrieval cache (\<open>gsbd.BlockDataRequest\<close>): \<open>Ready\<close> is whether the
  \<open>Ready\<close> channel is closed, which is what the non-blocking \<open>select\<close> observes.\<close>

record 'tx BlockDataRequest =
  Ready :: bool
  Transactions :: "'tx list"
  EncodedData :: bytes

record ProvideResult =
  DataID :: string
  Addrs :: "string list"
  Encoded :: bytes

text \<open>The part of the application manager's \<open>TxResult\<close> that the strategy reads.\<close>

record TxResult =
  Error :: "err option"

datatype level = Debug | Info | Warn

type_synonym log_entry = "level \<times> string"

text \<open>Calls on collaborators, in program order.\<close>

datatype 'tx event =
    CalledProposerSelection "64 word" "32 word"
  | CalledBuffered
  | CalledProvide "64 word" "32 word" "'tx list"
  | CalledSetImmediatelyAvailable string "'tx list" bytes
  | CalledRetrieve string bytes
  | SentProposal Proposal

text \<open>The \<open>chan<- tmconsensus.Proposal\<close> argument of \<open>EnterRound\<close>: nil or a channel.\<close>

datatype ProposalChan = NilChan | OpenChan

text \<open>A \<open>context.Context\<close>: \<open>Done = Some cause\<close> once it is cancelled.\<close>

record Context =
  Done :: "err option"

type_synonym 'tx RequestCache = "string \<rightharpoonup> 'tx BlockDataRequest"

text \<open>The \<open>ConsensusStrategy\<close> struct. A collaborator field holds the collaborator's
  behaviour: \<open>am\<close> is split into its two simulation entry points, \<open>txBuf\<close> is the snapshot
  that \<open>Buffered(ctx, nil)\<close> returns, \<open>provider\<close> is \<open>Provide\<close>, \<open>pbdr\<close> is \<open>Retrieve\<close>
  (which may register a request in the cache it shares with the strategy), \<open>bdrCache\<close>
  is the content of the request cache and \<open>log\<close> what has been logged. Two fields are not
  in the struct: \<open>calls\<close> records the calls made on collaborators and \<open>nowCalls\<close> counts
  the readings of the wall clock taken so far.\<close>

record ('tx, 'st) ConsensusStrategy =
  log :: "log_entry list"
  am_Simulate :: "'tx \<Rightarrow> err + (TxResult \<times> 'st)"
  am_SimulateWithState :: "'st \<Rightarrow> 'tx \<Rightarrow> err + (TxResult \<times> 'st)"
  txBuf :: "'tx list"
  signerPubKey :: PubKey
  provider :: "64 word \<Rightarrow> 32 word \<Rightarrow> 'tx list \<Rightarrow> err + ProvideResult"
  curH :: "64 word"
  curR :: "32 word"
  pbdr :: "'tx RequestCache \<Rightarrow> string \<Rightarrow> bytes \<Rightarrow> err option \<times> 'tx RequestCache"
  bdrCache :: "'tx RequestCache"
  proposerSelection :: "64 word \<Rightarrow> 32 word \<Rightarrow> ValidatorSet \<Rightarrow> Validator go_result"
  calls :: "'tx event list"
  nowCalls :: nat

text \<open>Package-level functions the hooks call and whose code is not among the sources:
  the identifier codec of \<open>gsbd\<close> (\<open>ParseDataID\<close> returns height, round, transaction
  count, data length and hash), \<open>encoding/json\<close> on the two annotation types, and
  \<open>time\<close>. An instant is an integer; \<open>timeNow n\<close> is the wall-clock reading that the
  \<open>n\<close>-th call of \<open>time.Now\<close> returns. They are parameters of the model.\<close>

record 'tx env =
  ParseDataID :: "string \<Rightarrow> err + (64 word \<times> 32 word \<times> int \<times> int \<times> bytes)"
  DataID :: "64 word \<Rightarrow> 32 word \<Rightarrow> int \<Rightarrow> 'tx list \<Rightarrow> string"
  jsonMarshalBA :: "BlockAnnotation \<Rightarrow> err + bytes"
  jsonUnmarshalBA :: "bytes \<Rightarrow> err + BlockAnnotation"
  jsonMarshalPDA :: "ProposalDriverAnnotation \<Rightarrow> err + bytes"
  timeParse :: "string \<Rightarrow> err + int"
  timeFormat :: "int \<Rightarrow> string"
  timeNow :: "nat \<Rightarrow> int"

section \<open>Proposer selection\<close>

text \<open>Conversion of a mathematical integer to Go's \<open>int\<close> on a 64-bit platform
  (two's complement wrap-around).\<close>

definition wrap_int64 :: "int \<Rightarrow> int" where
  "wrap_int64 x = (x + 2 ^ 63) mod 2 ^ 64 - 2 ^ 63"

text \<open>Go's \<open>%\<close> on signed integers truncates towards zero: the result has the sign of
  the dividend. The divisor is nonzero where this is used (the caller panics first).\<close>

definition go_rem :: "int \<Rightarrow> int \<Rightarrow> int" where
  "go_rem a b = (if a < 0 then - ((- a) mod \<bar>b\<bar>) else a mod \<bar>b\<bar>)"

text \<open>\<open>DefaultProposerSelection\<close>: \<open>proposerIdx := (int(h) + int(r)) % len(valSet.Validators)\<close>,
  then \<open>valSet.Validators[proposerIdx]\<close>. \<open>int(h)\<close> reinterprets the \<open>uint64\<close> as signed
  (\<open>sint\<close>), \<open>int(r)\<close> of a \<open>uint32\<close> is its value, the addition wraps, a zero length panics
  in \<open>%\<close> and an index outside the slice panics in the indexing.\<close>

definition DefaultProposerSelection ::
  "64 word \<Rightarrow> 32 word \<Rightarrow> ValidatorSet \<Rightarrow> Validator go_result" where
  "DefaultProposerSelection h r valSet =
     (let n = int (length (Validators valSet)) in
      if n = 0 then Panicked ''integer divide by zero''
      else
        let proposerIdx = go_rem (wrap_int64 (sint h + uint r)) n in
        if proposerIdx < 0 \<or> n \<le> proposerIdx then Panicked ''index out of range''
        else Returned (Validators valSet ! nat proposerIdx))"

section \<open>Precommit decision\<close>

text \<open>Modelled from the spec: \<open>tmconsensus.ByzantineMajority\<close> belongs to the consensus
  engine's library and is not among the sources. The spec describes it as the minimum
  power that is strictly more than two-thirds of the given power; on \<open>uint64\<close> that is
  \<open>2n div 3 + 1\<close>, which never exceeds \<open>2^64 - 1\<close>.\<close>

definition ByzantineMajority :: "64 word \<Rightarrow> 64 word" where
  "ByzantineMajority n = word_of_nat (2 * unat n div 3 + 1)"

text \<open>Reading a Go map at a missing key gives the zero value.\<close>

definition prevotePower :: "VoteSummary \<Rightarrow> 64 word" where
  "prevotePower vs =
     (case PrevoteBlockPower vs (MostVotedPrevoteHash vs) of None \<Rightarrow> 0 | Some p \<Rightarrow> p)"

definition DecidePrecommit :: "VoteSummary \<Rightarrow> string \<times> err option" where
  "DecidePrecommit vs =
     (let maj = ByzantineMajority (AvailablePower vs);
          pow = prevotePower vs
      in if maj \<le> pow then (MostVotedPrevoteHash vs, None) else ('''', None))"

section \<open>Helpers of the strategy\<close>

definition logf :: "('tx, 'st) ConsensusStrategy \<Rightarrow> level \<Rightarrow> string \<Rightarrow> ('tx, 'st) ConsensusStrategy" where
  "logf c lvl msg = c\<lparr>log := log c @ [(lvl, msg)]\<rparr>"

definition called :: "('tx, 'st) ConsensusStrategy \<Rightarrow> 'tx event \<Rightarrow> ('tx, 'st) ConsensusStrategy" where
  "called c ev = c\<lparr>calls := calls c @ [ev]\<rparr>"

text \<open>\<open>PubKey.Equal\<close> is a method of the key library's interface: calling it on a nil
  interface value panics; a key equals another exactly when the other is a key with the
  same bytes, so it never equals nil.\<close>

definition pubKeyEqual :: "PubKey \<Rightarrow> PubKey \<Rightarrow> bool go_result" where
  "pubKeyEqual k other =
     (case k of None \<Rightarrow> Panicked ''nil pointer dereference''
      | Some b \<Rightarrow> Returned (other = Some b))"

text \<open>Modelled from the spec: \<open>RequestCache.SetImmediatelyAvailable\<close> of \<open>gsbd\<close> is not
  among the sources. The spec has it create the record of the identifier synchronously,
  marked ready at once, with the transaction list and the encoded bytes.\<close>

definition SetImmediatelyAvailable ::
  "('tx, 'st) ConsensusStrategy \<Rightarrow> string \<Rightarrow> 'tx list \<Rightarrow> bytes \<Rightarrow> ('tx, 'st) ConsensusStrategy" where
  "SetImmediatelyAvailable c dataID txs encoded =
     called (c\<lparr>bdrCache := (bdrCache c)(dataID \<mapsto>
                \<lparr>Ready = True, Transactions = txs, EncodedData = encoded\<rparr>)\<rparr>)
       (CalledSetImmediatelyAvailable dataID txs encoded)"

text \<open>Modelled from the spec: \<open>gchan.SendC\<close> is not among the sources. The spec has the
  handoff block until the engine accepts the proposal or the surrounding task is
  cancelled; \<open>True\<close> means the proposal was handed over.\<close>

definition SendC ::
  "Context \<Rightarrow> ('tx, 'st) ConsensusStrategy \<Rightarrow> Proposal \<Rightarrow> bool \<times> ('tx, 'st) ConsensusStrategy" where
  "SendC ctx c p =
     (case Done ctx of Some cause \<Rightarrow> (False, c)
      | None \<Rightarrow> (True, called c (SentProposal p)))"

text \<open>\<open>context.Cause\<close>: the cause of a cancelled context, nil otherwise.\<close>

definition Cause :: "Context \<Rightarrow> err option" where
  "Cause ctx = Done ctx"

text \<open>\<open>BlockAnnotation.Time\<close>.\<close>

definition Time :: "'tx env \<Rightarrow> BlockAnnotation \<Rightarrow> err + int" where
  "Time E ba = timeParse E (TimeS ba)"

section \<open>Round entry\<close>

text \<open>The loop over \<open>rv.ProposedHeaders\<close> under a nil \<open>proposalOut\<close>, for the proposing
  validator's key \<open>k\<close>: \<open>Returned True\<close> when it returns at a header with an equal
  proposer key, \<open>Returned False\<close> when it runs to its end.\<close>

primrec alreadyProposed :: "PubKey \<Rightarrow> ProposedHeader list \<Rightarrow> bool go_result" where
  "alreadyProposed k [] = Returned False"
| "alreadyProposed k (ph # phs) =
     (case pubKeyEqual k (ProposerPubKey ph) of
        Panicked m \<Rightarrow> Panicked m
      | Returned eq \<Rightarrow> if eq then Returned True else alreadyProposed k phs)"

text \<open>The tail of \<open>EnterRound\<close>, from the \<open>gchan.SendC\<close> call.\<close>

definition handOff ::
  "Context \<Rightarrow> ('tx, 'st) ConsensusStrategy \<Rightarrow> string \<Rightarrow> bytes \<Rightarrow> bytes
     \<Rightarrow> err option go_result \<times> ('tx, 'st) ConsensusStrategy" where
  "handOff ctx c blockDataID ba pda =
     (case SendC ctx c
              \<lparr>Proposal.DataID = blockDataID,
               BlockAnnotations = \<lparr>User = [], Driver = ba\<rparr>,
               ProposalAnnotations = \<lparr>User = [], Driver = pda\<rparr>\<rparr> of
        (False, c') \<Rightarrow> (Returned (Cause ctx), c')
      | (True, c') \<Rightarrow> (Returned None, c'))"

text \<open>\<open>EnterRound\<close> from the marshalling of the block annotation on, reached when this
  process should propose and \<open>proposalOut\<close> is not nil.\<close>

definition propose ::
  "'tx env \<Rightarrow> Context \<Rightarrow> ('tx, 'st) ConsensusStrategy
     \<Rightarrow> err option go_result \<times> ('tx, 'st) ConsensusStrategy" where
  "propose E ctx c =
     (let now = timeNow E (nowCalls c);
          c1 = c\<lparr>nowCalls := Suc (nowCalls c)\<rparr>
      in case jsonMarshalBA E \<lparr>TimeS = timeFormat E now\<rparr> of
           Inl e \<Rightarrow> (Returned (Some (Wrap ''failed to marshal block driver annotations'' e)), c1)
         | Inr ba \<Rightarrow>
            (let pendingTxs = txBuf c1;
                 c2 = called c1 CalledBuffered
             in if length pendingTxs = 0
                then handOff ctx c2 (env.DataID E (curH c2) (curR c2) 0 []) ba []
                else
                  (let c3 = called c2 (CalledProvide (curH c2) (curR c2) pendingTxs)
                   in case provider c3 (curH c3) (curR c3) pendingTxs of
                        Inl e \<Rightarrow> (Returned (Some (Wrap ''failed to provide block data'' e)), c3)
                      | Inr res \<Rightarrow>
                         (case jsonMarshalPDA E \<lparr>Locations = Addrs res\<rparr> of
                            Inl e \<Rightarrow>
                              (Returned (Some (Wrap ''failed to marshal proposal driver annotations'' e)), c3)
                          | Inr pda \<Rightarrow>
                              (let blockDataID = ProvideResult.DataID res;
                                   c4 = SetImmediatelyAvailable c3 blockDataID pendingTxs (Encoded res)
                               in handOff ctx c4 blockDataID ba pda)))))"

text \<open>\<open>EnterRound\<close>. The body of \<open>if c.signerPubKey == nil\<close> is empty in the source, so
  the test has no effect and does not appear; execution always goes on to the proposer
  selection.\<close>

definition EnterRound ::
  "'tx env \<Rightarrow> Context \<Rightarrow> ('tx, 'st) ConsensusStrategy \<Rightarrow> RoundView \<Rightarrow> ProposalChan
     \<Rightarrow> err option go_result \<times> ('tx, 'st) ConsensusStrategy" where
  "EnterRound E ctx c rv proposalOut =
     (let c1 = c\<lparr>curH := RoundView.Height rv, curR := RoundView.Round rv\<rparr>;
          c2 = called c1 (CalledProposerSelection (RoundView.Height rv) (RoundView.Round rv))
      in case proposerSelection c2 (RoundView.Height rv) (RoundView.Round rv) (ValidatorSet rv) of
           Panicked m \<Rightarrow> (Panicked m, c2)
         | Returned proposingVal \<Rightarrow>
            (case pubKeyEqual (PubKey proposingVal) (signerPubKey c2) of
               Panicked m \<Rightarrow> (Panicked m, c2)
             | Returned weShouldPropose \<Rightarrow>
                if \<not> weShouldPropose then (Returned None, c2)
                else if proposalOut = NilChan then
                  (case alreadyProposed (PubKey proposingVal) (ProposedHeaders rv) of
                     Panicked m \<Rightarrow> (Panicked m, c2)
                   | Returned found \<Rightarrow>
                      if found then (Returned None, c2)
                      else (Panicked ''BUG: proposalOut channel was nil when we were supposed to propose'', c2))
                else propose E ctx c2))"

section \<open>Proposal consideration\<close>

text \<open>The inner loop over \<open>txs[1:]\<close>: \<open>Some entry\<close> when it leaves through
  \<open>continue PH_LOOP\<close> after logging \<open>entry\<close>, \<open>None\<close> when it runs to its end.\<close>

primrec simulateRest ::
  "('tx, 'st) ConsensusStrategy \<Rightarrow> 'st \<Rightarrow> 'tx list \<Rightarrow> log_entry option" where
  "simulateRest c state [] = None"
| "simulateRest c state (tx # txs) =
     (case am_SimulateWithState c state tx of
        Inl e \<Rightarrow>
          Some (Info, ''Failed to run SimulateWithState for incoming transaction; discarding the transaction'')
      | Inr (txRes, state') \<Rightarrow>
          (case Error txRes of
             Some e \<Rightarrow> Some (Debug, ''Ignoring proposed block due to failure to apply transaction'')
           | None \<Rightarrow> simulateRest c state' txs))"

text \<open>What one iteration of \<open>PH_LOOP\<close> does with its candidate.\<close>

datatype verdict = Accept string | Continue | Panic string

text \<open>The end of the loop body: block annotation, block time, the clock.\<close>

definition checkAnnotation ::
  "'tx env \<Rightarrow> ('tx, 'st) ConsensusStrategy \<Rightarrow> ProposedHeader
     \<Rightarrow> verdict \<times> ('tx, 'st) ConsensusStrategy" where
  "checkAnnotation E c ph =
     (case jsonUnmarshalBA E (Driver (Header.Annotations (Header ph))) of
        Inl e \<Rightarrow>
          (Continue, logf c Debug ''Ignoring proposed block due to error extracting block annotation'')
      | Inr ba \<Rightarrow>
          (case Time E ba of
             Inl e \<Rightarrow>
               (Continue,
                logf c Debug ''Ignoring proposed block due to error extracting block time from annotation'')
           | Inr bt \<Rightarrow>
               (let now = timeNow E (nowCalls c);
                    c1 = c\<lparr>nowCalls := Suc (nowCalls c)\<rparr>
                in if now < bt
                   then (Continue, logf c1 Debug ''Ignoring proposed block due to block time in the future'')
                   else (Accept (Hash (Header ph)), c1))))"

text \<open>The body of \<open>PH_LOOP\<close> after the cache lookup has found the record \<open>bdr\<close>.\<close>

definition simulateBatch ::
  "'tx env \<Rightarrow> ('tx, 'st) ConsensusStrategy \<Rightarrow> ProposedHeader \<Rightarrow> 'tx BlockDataRequest
     \<Rightarrow> verdict \<times> ('tx, 'st) ConsensusStrategy" where
  "simulateBatch E c ph bdr =
     (if \<not> Ready bdr then (Continue, c)
      else
        (case Transactions bdr of
           [] \<Rightarrow> (Panic ''index out of range'', c)
         | tx0 # rest \<Rightarrow>
            (case am_Simulate c tx0 of
               Inl e \<Rightarrow> (Continue, logf c Debug ''Ignoring proposed block due to failure to simulate'')
             | Inr (txRes, state) \<Rightarrow>
                (case Error txRes of
                   Some e \<Rightarrow>
                     (Continue, logf c Debug ''Ignoring proposed block due to failure to apply transaction'')
                 | None \<Rightarrow>
                    (case simulateRest c state rest of
                       Some entry \<Rightarrow> (Continue, c\<lparr>log := log c @ [entry]\<rparr>)
                     | None \<Rightarrow> checkAnnotation E c ph)))))"

text \<open>The cache miss: \<open>c.pbdr.Retrieve\<close>, a warning when it fails, \<open>continue\<close> either way.\<close>

definition startRetrieval ::
  "('tx, 'st) ConsensusStrategy \<Rightarrow> ProposedHeader \<Rightarrow> ('tx, 'st) ConsensusStrategy" where
  "startRetrieval c ph =
     (let dataID = Header.DataID (Header ph);
          metadata = Driver (ProposedHeader.Annotations ph);
          (rerr, cache') = pbdr c (bdrCache c) dataID metadata;
          c1 = called (c\<lparr>bdrCache := cache'\<rparr>) (CalledRetrieve dataID metadata)
      in case rerr of
           Some e \<Rightarrow> logf c1 Warn ''Failed to initiate retrieval of proposed data''
         | None \<Rightarrow> c1)"

definition considerCandidate ::
  "'tx env \<Rightarrow> ('tx, 'st) ConsensusStrategy \<Rightarrow> ProposedHeader
     \<Rightarrow> verdict \<times> ('tx, 'st) ConsensusStrategy" where
  "considerCandidate E c ph =
     (if Header.Height (Header ph) \<noteq> curH c
      then (Continue, logf c Debug ''Ignoring proposed block due to height mismatch'')
      else if ProposedHeader.Round ph \<noteq> curR c
      then (Continue, logf c Debug ''Ignoring proposed block due to round mismatch'')
      else
        (case ParseDataID E (Header.DataID (Header ph)) of
           Inl e \<Rightarrow>
             (Continue, logf c Debug ''Ignoring proposed block due to unparseable app data ID'')
         | Inr (h, r, nTxs, dataLen, hash) \<Rightarrow>
             if h \<noteq> curH c
             then (Continue, logf c Debug ''Ignoring proposed block due to wrong height in app data ID'')
             else if r \<noteq> curR c
             then (Continue, logf c Debug ''Ignoring proposed block due to wrong round in app data ID'')
             else if nTxs \<noteq> 0
             then
               (case bdrCache c (Header.DataID (Header ph)) of
                  None \<Rightarrow> (Continue, startRetrieval c ph)
                | Some bdr \<Rightarrow> simulateBatch E c ph bdr)
             else checkAnnotation E c ph))"

text \<open>\<open>ConsiderProposedBlocks\<close>: the loop over \<open>phs\<close>. The last argument is the
  \<open>ConsiderProposedBlocksReason\<close>, which the source binds to \<open>_\<close>.\<close>

fun ConsiderProposedBlocks ::
  "'tx env \<Rightarrow> ('tx, 'st) ConsensusStrategy \<Rightarrow> ProposedHeader list \<Rightarrow> 'reason
     \<Rightarrow> (string \<times> err option) go_result \<times> ('tx, 'st) ConsensusStrategy" where
  "ConsiderProposedBlocks E c [] reason =
     (Returned ('''', Some ErrProposedBlockChoiceNotReady), c)"
| "ConsiderProposedBlocks E c (ph # phs) reason =
     (case considerCandidate E c ph of
        (Accept h, c') \<Rightarrow> (Returned (h, None), c')
      | (Continue, c') \<Rightarrow> ConsiderProposedBlocks E c' phs reason
      | (Panic m, c') \<Rightarrow> (Panicked m, c'))"

definition ChooseProposedBlock ::
  "'tx env \<Rightarrow> ('tx, 'st) ConsensusStrategy \<Rightarrow> ProposedHeader list
     \<Rightarrow> (string \<times> err option) go_result \<times> ('tx, 'st) ConsensusStrategy" where
  "ChooseProposedBlock E c phs =
     (case ConsiderProposedBlocks E c phs () of
        (Panicked m, c') \<Rightarrow> (Panicked m, c')
      | (Returned (h, e), c') \<Rightarrow>
          if e = Some ErrProposedBlockChoiceNotReady then (Returned ('''', None), c')
          else if e \<noteq> None then (Returned ('''', e), c')
          else (Returned (h, None), c'))"

section \<open>The checks of a candidate, as the specification words them\<close>

text \<open>The specification validates a batch by simulating the first transaction against
  the latest committed state and each remaining one against the intermediate state
  that the previous step returned. \<open>stateAfter c txs k\<close> is the intermediate state after
  the transactions at positions \<open>0..k\<close> when every one of these steps could read state
  and found its transaction valid, and \<open>None\<close> when one of them did not.\<close>

definition stepOK :: "err + (TxResult \<times> 'st) \<Rightarrow> 'st option" where
  "stepOK res =
     (case res of Inl e \<Rightarrow> None
      | Inr (txRes, state) \<Rightarrow> (if Error txRes = None then Some state else None))"

primrec stateAfter :: "('tx, 'st) ConsensusStrategy \<Rightarrow> 'tx list \<Rightarrow> nat \<Rightarrow> 'st option" where
  "stateAfter c txs 0 = stepOK (am_Simulate c (txs ! 0))"
| "stateAfter c txs (Suc k) =
     (case stateAfter c txs k of None \<Rightarrow> None
      | Some state \<Rightarrow> stepOK (am_SimulateWithState c state (txs ! Suc k)))"

definition simulatesSuccessfully :: "('tx, 'st) ConsensusStrategy \<Rightarrow> 'tx list \<Rightarrow> bool" where
  "simulatesSuccessfully c txs \<longleftrightarrow> txs \<noteq> [] \<and> stateAfter c txs (length txs - 1) \<noteq> None"

text \<open>Checks 1 to 3 of the specification: the header's height and round are those of
  the round context, the identifier parses, and the height and round inside it are those
  of the round context. The result is the identifier's transaction count.\<close>

definition roundContextChecks ::
  "'tx env \<Rightarrow> ('tx, 'st) ConsensusStrategy \<Rightarrow> ProposedHeader \<Rightarrow> int option" where
  "roundContextChecks E c ph =
     (if Header.Height (Header ph) = curH c \<and> ProposedHeader.Round ph = curR c
      then (case ParseDataID E (Header.DataID (Header ph)) of
              Inl e \<Rightarrow> None
            | Inr (h, r, nTxs, dataLen, hash) \<Rightarrow> if h = curH c \<and> r = curR c then Some nTxs else None)
      else None)"

text \<open>Check 4: with a nonzero transaction count the data is cached, ready, and simulates
  successfully.\<close>

definition dataChecks ::
  "('tx, 'st) ConsensusStrategy \<Rightarrow> ProposedHeader \<Rightarrow> int \<Rightarrow> bool" where
  "dataChecks c ph nTxs \<longleftrightarrow>
     nTxs = 0 \<or>
     (case bdrCache c (Header.DataID (Header ph)) of
        None \<Rightarrow> False
      | Some bdr \<Rightarrow> Ready bdr \<and> simulatesSuccessfully c (Transactions bdr))"

text \<open>Check 5: the claimed proposal time, when the block annotation decodes and its
  time parses.\<close>

definition claimedTime :: "'tx env \<Rightarrow> ProposedHeader \<Rightarrow> int option" where
  "claimedTime E ph =
     (case jsonUnmarshalBA E (Driver (Header.Annotations (Header ph))) of
        Inl e \<Rightarrow> None
      | Inr ba \<Rightarrow> (case timeParse E (TimeS ba) of Inl e \<Rightarrow> None | Inr bt \<Rightarrow> Some bt))"

text \<open>Check 6: the claimed time is strictly after the wall-clock reading that the
  evaluation of the candidate takes in state \<open>c\<close>.\<close>

definition claimsFutureTime ::
  "'tx env \<Rightarrow> ('tx, 'st) ConsensusStrategy \<Rightarrow> ProposedHeader \<Rightarrow> bool" where
  "claimsFutureTime E c ph =
     (case claimedTime E ph of None \<Rightarrow> False | Some bt \<Rightarrow> timeNow E (nowCalls c) < bt)"

definition passesEveryCheck ::
  "'tx env \<Rightarrow> ('tx, 'st) ConsensusStrategy \<Rightarrow> ProposedHeader \<Rightarrow> bool" where
  "passesEveryCheck E c ph =
     (case roundContextChecks E c ph of
        None \<Rightarrow> False
      | Some nTxs \<Rightarrow>
          dataChecks c ph nTxs \<and> claimedTime E ph \<noteq> None \<and> \<not> claimsFutureTime E c ph)"

text \<open>The source reads \<open>txs[0]\<close> of a ready record on the strength of the identifier's
  nonzero count. A ready record with no transactions under such an identifier makes
  that read panic.\<close>

definition emptyReadyBatch ::
  "'tx env \<Rightarrow> ('tx, 'st) ConsensusStrategy \<Rightarrow> ProposedHeader \<Rightarrow> bool" where
  "emptyReadyBatch E c ph =
     (case roundContextChecks E c ph of
        None \<Rightarrow> False
      | Some nTxs \<Rightarrow>
          nTxs \<noteq> 0 \<and>
          (case bdrCache c (Header.DataID (Header ph)) of
             None \<Rightarrow> False
           | Some bdr \<Rightarrow> Ready bdr \<and> Transactions bdr = []))"

text \<open>The states in which the candidates of a list are evaluated while none of them
  ends the loop: the state of each candidate is the one its predecessor left.\<close>

primrec statesBefore ::
  "'tx env \<Rightarrow> ('tx, 'st) ConsensusStrategy \<Rightarrow> ProposedHeader list
     \<Rightarrow> ('tx, 'st) ConsensusStrategy list" where
  "statesBefore E c [] = []"
| "statesBefore E c (ph # phs) = c # statesBefore E (snd (considerCandidate E c ph)) phs"

text \<open>The first candidate of the list that passes every check in the state in which it
  is evaluated.\<close>

definition firstAcceptable ::
  "'tx env \<Rightarrow> ('tx, 'st) ConsensusStrategy \<Rightarrow> ProposedHeader list \<Rightarrow> ProposedHeader option" where
  "firstAcceptable E c phs =
     map_option fst (find (\<lambda>(ph, c'). passesEveryCheck E c' ph) (zip phs (statesBefore E c phs)))"

definition noEmptyReadyBatch ::
  "'tx env \<Rightarrow> ('tx, 'st) ConsensusStrategy \<Rightarrow> ProposedHeader list \<Rightarrow> bool" where
  "noEmptyReadyBatch E c phs =
     list_all (\<lambda>(ph, c'). \<not> emptyReadyBatch E c' ph) (zip phs (statesBefore E c phs))"

section \<open>An example deployment\<close>

text \<open>Modelled from the spec: the identifier codec of \<open>gsbd\<close> is not among the sources
  (only the generator of its zero-hash constant is). The spec gives the wire format
  \<open><height>:<round>:<nTxs>:<dataLen>:<hexHash>\<close> and, for the empty batch, a fixed
  suffix ending in the hash of the empty input.\<close>

definition zeroHash :: string where
  "zeroHash = ''0e5751c026e543b2e8ab2eb06099daa1d1e5df47778f7787faab45cdf12fe3a8''"

definition zeroHashSuffix :: string where
  "zeroHashSuffix = '':0:0:'' @ zeroHash"

definition digitChar :: "nat \<Rightarrow> char" where
  "digitChar d = ''0123456789'' ! d"

function decimal :: "nat \<Rightarrow> string" where
  "decimal n = (if n < 10 then [digitChar n] else decimal (n div 10) @ [digitChar (n mod 10)])"
  by pat_completeness auto
termination
  by (relation "measure id") auto

declare decimal.simps [simp del]

definition digitVal :: "char \<Rightarrow> nat option" where
  "digitVal ch = (if ch \<in> set ''0123456789'' then Some (of_char ch - 48) else None)"

definition parseUint :: "string \<Rightarrow> nat option" where
  "parseUint s =
     (if s = [] then None
      else foldl (\<lambda>acc ch. case acc of None \<Rightarrow> None
                             | Some a \<Rightarrow> map_option (\<lambda>d. a * 10 + d) (digitVal ch)) (Some 0) s)"

primrec splitOn :: "char \<Rightarrow> string \<Rightarrow> string list" where
  "splitOn sep [] = [[]]"
| "splitOn sep (ch # s) =
     (if ch = sep then [] # splitOn sep s
      else (case splitOn sep s of [] \<Rightarrow> [[ch]] | f # fs \<Rightarrow> (ch # f) # fs))"

definition isHexHash :: "string \<Rightarrow> bool" where
  "isHexHash s \<longleftrightarrow> length s = 64 \<and> list_all (\<lambda>ch. ch \<in> set ''0123456789abcdef'') s"

definition emptyDataID :: "64 word \<Rightarrow> 32 word \<Rightarrow> string" where
  "emptyDataID h r = decimal (unat h) @ '':'' @ decimal (unat r) @ zeroHashSuffix"

definition parseDataID :: "string \<Rightarrow> err + (64 word \<times> 32 word \<times> int \<times> int \<times> bytes)" where
  "parseDataID s =
     (case splitOn CHR '':'' s of
        [hs, rs, ns, ds, xs] \<Rightarrow>
          (case (parseUint hs, parseUint rs, parseUint ns, parseUint ds) of
             (Some h, Some r, Some n, Some d) \<Rightarrow>
               if h < 2 ^ 64 \<and> r < 2 ^ 32 \<and> isHexHash xs
               then Inr (word_of_nat h, word_of_nat r, int n, int d, xs)
               else Inl (Err ''invalid data ID'')
           | _ \<Rightarrow> Inl (Err ''invalid data ID''))
      | _ \<Rightarrow> Inl (Err ''invalid data ID''))"

text \<open>An environment for the examples. The strategy calls \<open>DataID\<close> for the empty batch
  only, so that is what the example renders. An annotation's bytes are its time text, and
  a time is written as a decimal number of seconds; the clock reads 1000, 1001, ...\<close>

definition exampleEnv :: "string env" where
  "exampleEnv =
     \<lparr>ParseDataID = parseDataID,
      DataID = (\<lambda>h r dataLen txs. emptyDataID h r),
      jsonMarshalBA = (\<lambda>ba. Inr (TimeS ba)),
      jsonUnmarshalBA = (\<lambda>b. Inr \<lparr>TimeS = b\<rparr>),
      jsonMarshalPDA = (\<lambda>pda. Inr (concat (Locations pda))),
      timeParse = (\<lambda>s. case parseUint s of None \<Rightarrow> Inl (Err ''cannot parse time'')
                        | Some n \<Rightarrow> Inr (int n)),
      timeFormat = (\<lambda>t. decimal (nat t)),
      timeNow = (\<lambda>n. 1000 + int n)\<rparr>"

text \<open>An application for the examples: a transaction is its text, the simulation state
  is the list of transactions applied so far, the transaction \<open>invalid\<close> is rejected and
  the transaction \<open>unreadable\<close> fails to read state.\<close>

definition exampleApply :: "string list \<Rightarrow> string \<Rightarrow> err + (TxResult \<times> string list)" where
  "exampleApply state tx =
     (if tx = ''unreadable'' then Inl (Err ''failed to get state from the store'')
      else if tx = ''invalid'' then Inr (\<lparr>Error = Some (Err ''invalid transaction'')\<rparr>, state)
      else Inr (\<lparr>Error = None\<rparr>, state @ [tx]))"

definition exampleID :: string where
  "exampleID = ''10:0:1:5:aaaaaaaaaaaaaaaaaaaaaaaaaaaaaaaaaaaaaaaaaaaaaaaaaaaaaaaaaaaaaaaa''"

definition exampleID3 :: string where
  "exampleID3 = ''10:0:3:9:bbbbbbbbbbbbbbbbbbbbbbbbbbbbbbbbbbbbbbbbbbbbbbbbbbbbbbbbbbbbbbbb''"

text \<open>A validator \<open>A\<close> at height 10, round 0, of the validator set \<open>A:60, B:40\<close>, with an
  empty cache. Its retriever registers a pending request; its provider returns
  \<open>exampleID\<close>.\<close>

definition exampleValSet :: ValidatorSet where
  "exampleValSet =
     \<lparr>Validators = [\<lparr>PubKey = Some ''A'', Power = 60\<rparr>, \<lparr>PubKey = Some ''B'', Power = 40\<rparr>]\<rparr>"

definition exampleStrategy :: "(string, string list) ConsensusStrategy" where
  "exampleStrategy =
     \<lparr>log = [],
      am_Simulate = exampleApply [],
      am_SimulateWithState = exampleApply,
      txBuf = [''tx1''],
      signerPubKey = Some ''A'',
      provider = (\<lambda>h r txs. Inr \<lparr>ProvideResult.DataID = exampleID, Addrs = [''/data''],
                                 Encoded = concat txs\<rparr>),
      curH = 10,
      curR = 0,
      pbdr = (\<lambda>cache dataID metadata.
                (None, cache(dataID \<mapsto> \<lparr>Ready = False, Transactions = [], EncodedData = []\<rparr>))),
      bdrCache = Map.empty,
      proposerSelection = DefaultProposerSelection,
      calls = [],
      nowCalls = 0\<rparr>"

definition exampleRoundView :: RoundView where
  "exampleRoundView =
     \<lparr>RoundView.Height = 10, Round = 0, ValidatorSet = exampleValSet, ProposedHeaders = []\<rparr>"

text \<open>A header proposed by \<open>A\<close> for this round with the given identifier, hash and
  claimed time.\<close>

definition exampleHeader :: "string \<Rightarrow> string \<Rightarrow> string \<Rightarrow> ProposedHeader" where
  "exampleHeader dataID hash t =
     \<lparr>Header = \<lparr>Header.Height = 10, DataID = dataID, Hash = hash,
                 Annotations = \<lparr>User = [], Driver = t\<rparr>\<rparr>,
      Round = 0,
      ProposerPubKey = Some ''A'',
      Annotations = \<lparr>User = [], Driver = ''/data''\<rparr>\<rparr>"

section \<open>Precommit decision: the threshold\<close>

lemma unat_ByzantineMajority: "unat (ByzantineMajority n) = 2 * unat n div 3 + 1"
proof -
  have "unat n < 2 ^ 64" using unsigned_less [of n] by simp
  then have "2 * unat n div 3 + 1 < 2 ^ LENGTH(64)" by simp
  then show ?thesis
    unfolding ByzantineMajority_def by (rule of_nat_inverse [OF refl])
qed

lemma ByzantineMajority_le_iff: "ByzantineMajority n \<le> p \<longleftrightarrow> 2 * unat n < 3 * unat p"
  by (simp add: word_le_nat_alt unat_ByzantineMajority) arith

text \<open>C1: \<open>DecidePrecommit\<close> returns the most-prevoted hash when the prevote power
  recorded for it (zero when the map has no entry) meets or exceeds the Byzantine-majority
  threshold over the available power, and the empty value otherwise, never an error;
  meeting the threshold is the same as holding strictly more than two-thirds of the
  available power.\<close>

theorem DecidePrecommit_threshold:
  "DecidePrecommit vs =
     (if ByzantineMajority (AvailablePower vs) \<le> prevotePower vs
      then (MostVotedPrevoteHash vs, None) else ('''', None))
   \<and> (ByzantineMajority (AvailablePower vs) \<le> prevotePower vs
        \<longleftrightarrow> 2 * unat (AvailablePower vs) < 3 * unat (prevotePower vs))"
  by (simp add: DecidePrecommit_def ByzantineMajority_le_iff)

text \<open>With available power 100, a candidate with prevote power 67 is precommitted and one
  with 66 gives the nil precommit.\<close>

theorem DecidePrecommit_threshold_witness:
  "DecidePrecommit \<lparr>AvailablePower = 100, PrevoteBlockPower = [''block'' \<mapsto> 67],
                    MostVotedPrevoteHash = ''block''\<rparr> = (''block'', None)
   \<and> DecidePrecommit \<lparr>AvailablePower = 100, PrevoteBlockPower = [''block'' \<mapsto> 66],
                      MostVotedPrevoteHash = ''block''\<rparr> = ('''', None)"
  using DecidePrecommit_threshold
          [of "\<lparr>AvailablePower = 100, PrevoteBlockPower = [''block'' \<mapsto> 67],
                MostVotedPrevoteHash = ''block''\<rparr>"]
        DecidePrecommit_threshold
          [of "\<lparr>AvailablePower = 100, PrevoteBlockPower = [''block'' \<mapsto> 66],
                MostVotedPrevoteHash = ''block''\<rparr>"]
  by (simp add: prevotePower_def)

section \<open>Proposer selection: range of the index\<close>

lemma wrap_int64_id: "0 \<le> x \<Longrightarrow> x < 2 ^ 63 \<Longrightarrow> wrap_int64 x = x"
  by (simp add: wrap_int64_def)

lemma go_rem_of_nat: "go_rem (int m) (int n) = int (m mod n)"
  by (simp add: go_rem_def zmod_int)

text \<open>While height plus round stays below \<open>2^63\<close> the selection is the round-robin of the
  specification.\<close>

lemma DefaultProposerSelection_round_robin:
  assumes "Validators valSet \<noteq> []" and "unat h + unat r < 2 ^ 63"
  shows "DefaultProposerSelection h r valSet =
           Returned (Validators valSet ! ((unat h + unat r) mod length (Validators valSet)))"
proof -
  let ?n = "length (Validators valSet)"
  have n: "0 < ?n" using assms(1) by simp
  have "unat h < 2 ^ 63" using assms(2) by simp
  then have "int (unat h) < int (2 ^ 63)" by (simp only: of_nat_less_iff)
  then have hlt: "uint h < 2 ^ 63" unfolding uint_nat by simp
  have "signed_take_bit 63 (uint h) = uint h"
  proof (rule signed_take_bit_int_eq_self)
    have "- (2 ^ 63) \<le> (0::int)" by simp
    also have "(0::int) \<le> uint h" by simp
    finally show "- (2 ^ 63) \<le> uint h" .
    show "uint h < 2 ^ 63" by (rule hlt)
  qed
  then have "sint h = uint h"
    unfolding sint_uint by simp
  then have sum: "sint h + uint r = int (unat h + unat r)"
    by (simp only: uint_nat of_nat_add)
  have "int (unat h + unat r) < int (2 ^ 63)" using assms(2) by (simp only: of_nat_less_iff)
  then have "int (unat h + unat r) < 2 ^ 63" by simp
  then have w: "wrap_int64 (sint h + uint r) = int (unat h + unat r)"
    unfolding sum by (intro wrap_int64_id) simp_all
  have idx: "go_rem (int (unat h + unat r)) (int ?n) = int ((unat h + unat r) mod ?n)"
    by (rule go_rem_of_nat)
  have lt: "\<not> ?n \<le> (unat h + unat r) mod ?n" using n by (simp add: not_le)
  show ?thesis
    unfolding DefaultProposerSelection_def Let_def w idx using n lt by simp
qed

text \<open>C5: the claim is that for every validator set with at least one validator and for
  all heights and rounds the default selection returns the validator at index
  \<open>(height + round) mod N\<close> and never indexes out of range. At height \<open>2^63\<close>, round 0 and
  three validators, \<open>int(h)\<close> is \<open>-2^63\<close>, Go's \<open>%\<close> gives \<open>-2\<close>, and the indexing
  panics.\<close>

theorem DefaultProposerSelection_large_height:
  "DefaultProposerSelection (2 ^ 63) 0
     \<lparr>Validators = [\<lparr>PubKey = Some ''A'', Power = 1\<rparr>, \<lparr>PubKey = Some ''B'', Power = 1\<rparr>,
                    \<lparr>PubKey = Some ''C'', Power = 1\<rparr>]\<rparr>
   = Panicked ''index out of range''"
  by (simp add: DefaultProposerSelection_def wrap_int64_def go_rem_def)

section \<open>Round entry: who proposes, and what\<close>

lemma alreadyProposed_Some:
  "alreadyProposed (Some b) phs = Returned (\<exists>ph\<in>set phs. ProposerPubKey ph = Some b)"
  by (induction phs) (auto simp: pubKeyEqual_def)

lemma exampleSelection:
  "DefaultProposerSelection 10 0 exampleValSet = Returned \<lparr>PubKey = Some ''A'', Power = 60\<rparr>"
  by (simp add: DefaultProposerSelection_def exampleValSet_def wrap_int64_def go_rem_def)

lemma decimal_examples: "decimal 10 = ''10''" "decimal 0 = ''0''" "decimal 1000 = ''1000''"
  by (simp_all add: decimal.simps digitChar_def)

text \<open>Without a signing identity the hook still runs the proposer selection and the key
  comparison. When the selection returns a validator with a key, the comparison with the
  nil key is false and the hook returns nil then.\<close>

lemma EnterRound_nil_signer:
  assumes "signerPubKey c = None"
      and "proposerSelection c (RoundView.Height rv) (RoundView.Round rv) (ValidatorSet rv) = Returned v"
      and "PubKey v = Some k"
  shows "EnterRound E ctx c rv proposalOut =
           (Returned None,
            called (c\<lparr>curH := RoundView.Height rv, curR := RoundView.Round rv\<rparr>)
              (CalledProposerSelection (RoundView.Height rv) (RoundView.Round rv)))"
  using assms by (simp add: EnterRound_def Let_def called_def pubKeyEqual_def)

text \<open>C6: the claim is that with a nil signer public key \<open>EnterRound\<close> stops early and
  returns no error. The source's early stop has an empty body, so the hook goes on to the
  proposer selection; on a round view whose validator set is empty the default selection
  divides by zero and the hook panics instead of returning.\<close>

theorem EnterRound_nil_signer_empty_validators:
  "fst (EnterRound exampleEnv \<lparr>Done = None\<rparr> (exampleStrategy\<lparr>signerPubKey := None\<rparr>)
          (exampleRoundView\<lparr>ValidatorSet := \<lparr>Validators = []\<rparr>\<rparr>) OpenChan)
   = Panicked ''integer divide by zero''"
  by (simp add: EnterRound_def exampleStrategy_def exampleRoundView_def
        DefaultProposerSelection_def called_def)

text \<open>C7: when the selected proposer's key is the local signer's key and the proposal
  destination is nil, \<open>EnterRound\<close> returns nil exactly when one of the round view's
  proposed headers carries that key as its proposer, and panics otherwise; in both cases
  it has sent no proposal and called no collaborator but the proposer selection.\<close>

theorem EnterRound_nil_destination:
  assumes "proposerSelection c (RoundView.Height rv) (RoundView.Round rv) (ValidatorSet rv) = Returned v"
      and "PubKey v = Some k" and "signerPubKey c = Some k"
  shows "EnterRound E ctx c rv NilChan =
           (if \<exists>ph\<in>set (ProposedHeaders rv). ProposerPubKey ph = Some k
            then Returned None
            else Panicked ''BUG: proposalOut channel was nil when we were supposed to propose'',
            called (c\<lparr>curH := RoundView.Height rv, curR := RoundView.Round rv\<rparr>)
              (CalledProposerSelection (RoundView.Height rv) (RoundView.Round rv)))"
  using assms
  by (simp add: EnterRound_def Let_def called_def pubKeyEqual_def alreadyProposed_Some)

theorem EnterRound_nil_destination_witness:
  "EnterRound exampleEnv \<lparr>Done = None\<rparr> exampleStrategy
     (exampleRoundView\<lparr>ProposedHeaders := [exampleHeader exampleID ''h1'' ''900'']\<rparr>) NilChan
     = (Returned None, called exampleStrategy (CalledProposerSelection 10 0))
   \<and> fst (EnterRound exampleEnv \<lparr>Done = None\<rparr> exampleStrategy exampleRoundView NilChan)
     = Panicked ''BUG: proposalOut channel was nil when we were supposed to propose''"
  using EnterRound_nil_destination
          [of exampleStrategy
              "exampleRoundView\<lparr>ProposedHeaders := [exampleHeader exampleID ''h1'' ''900'']\<rparr>"
              "\<lparr>PubKey = Some ''A'', Power = 60\<rparr>" "''A''" exampleEnv "\<lparr>Done = None\<rparr>"]
        EnterRound_nil_destination
          [of exampleStrategy exampleRoundView
              "\<lparr>PubKey = Some ''A'', Power = 60\<rparr>" "''A''" exampleEnv "\<lparr>Done = None\<rparr>"]
  by (simp add: exampleStrategy_def exampleRoundView_def exampleSelection exampleHeader_def)

lemma handOff_Returned_None:
  "handOff ctx c dataID ba pda = (Returned None, c') \<Longrightarrow>
     c' = called c (SentProposal \<lparr>Proposal.DataID = dataID,
                                  BlockAnnotations = \<lparr>User = [], Driver = ba\<rparr>,
                                  ProposalAnnotations = \<lparr>User = [], Driver = pda\<rparr>\<rparr>)"
  by (auto simp: handOff_def SendC_def Cause_def split: option.splits)

lemma propose_nonempty:
  assumes "propose E ctx c = (Returned None, c')" and "txBuf c \<noteq> []"
  shows "\<exists>res ba pda.
           provider c (curH c) (curR c) (txBuf c) = Inr res \<and>
           calls c' = calls c @
             [CalledBuffered, CalledProvide (curH c) (curR c) (txBuf c),
              CalledSetImmediatelyAvailable (ProvideResult.DataID res) (txBuf c) (Encoded res),
              SentProposal \<lparr>Proposal.DataID = ProvideResult.DataID res,
                            BlockAnnotations = \<lparr>User = [], Driver = ba\<rparr>,
                            ProposalAnnotations = \<lparr>User = [], Driver = pda\<rparr>\<rparr>] \<and>
           bdrCache c' = (bdrCache c)(ProvideResult.DataID res \<mapsto>
             \<lparr>Ready = True, Transactions = txBuf c, EncodedData = Encoded res\<rparr>)"
  using assms
  by (auto simp: propose_def Let_def called_def SetImmediatelyAvailable_def
           split: sum.splits dest!: handOff_Returned_None)

lemma propose_empty:
  assumes "propose E ctx c = (Returned None, c')" and "txBuf c = []"
  shows "\<exists>ba.
           calls c' = calls c @
             [CalledBuffered,
              SentProposal \<lparr>Proposal.DataID = env.DataID E (curH c) (curR c) 0 [],
                            BlockAnnotations = \<lparr>User = [], Driver = ba\<rparr>,
                            ProposalAnnotations = \<lparr>User = [], Driver = []\<rparr>\<rparr>] \<and>
           bdrCache c' = bdrCache c"
  using assms
  by (auto simp: propose_def Let_def called_def
           split: sum.splits dest!: handOff_Returned_None)

lemma EnterRound_proposing:
  assumes "proposerSelection c (RoundView.Height rv) (RoundView.Round rv) (ValidatorSet rv) = Returned v"
      and "PubKey v = Some k" and "signerPubKey c = Some k"
  shows "EnterRound E ctx c rv OpenChan =
           propose E ctx (called (c\<lparr>curH := RoundView.Height rv, curR := RoundView.Round rv\<rparr>)
              (CalledProposerSelection (RoundView.Height rv) (RoundView.Round rv)))"
  using assms by (simp add: EnterRound_def Let_def called_def pubKeyEqual_def)

lemma example_EnterRound_empty:
  "EnterRound exampleEnv \<lparr>Done = None\<rparr> (exampleStrategy\<lparr>txBuf := []\<rparr>) exampleRoundView OpenChan
   = (Returned None,
      exampleStrategy\<lparr>txBuf := [], nowCalls := 1,
        calls := [CalledProposerSelection 10 0, CalledBuffered,
                  SentProposal \<lparr>Proposal.DataID = emptyDataID 10 0,
                                BlockAnnotations = \<lparr>User = [], Driver = ''1000''\<rparr>,
                                ProposalAnnotations = \<lparr>User = [], Driver = []\<rparr>\<rparr>]\<rparr>)"
  by (simp add: EnterRound_def exampleStrategy_def exampleRoundView_def exampleSelection
        pubKeyEqual_def called_def propose_def Let_def exampleEnv_def handOff_def SendC_def
        decimal_examples)

lemma example_EnterRound:
  "EnterRound exampleEnv \<lparr>Done = None\<rparr> exampleStrategy exampleRoundView OpenChan
   = (Returned None,
      exampleStrategy\<lparr>nowCalls := 1,
        bdrCache := [exampleID \<mapsto> \<lparr>Ready = True, Transactions = [''tx1''], EncodedData = ''tx1''\<rparr>],
        calls := [CalledProposerSelection 10 0, CalledBuffered, CalledProvide 10 0 [''tx1''],
                  CalledSetImmediatelyAvailable exampleID [''tx1''] ''tx1'',
                  SentProposal \<lparr>Proposal.DataID = exampleID,
                                BlockAnnotations = \<lparr>User = [], Driver = ''1000''\<rparr>,
                                ProposalAnnotations = \<lparr>User = [], Driver = ''/data''\<rparr>\<rparr>]\<rparr>)"
  by (simp add: EnterRound_def exampleStrategy_def exampleRoundView_def exampleSelection
        pubKeyEqual_def called_def propose_def Let_def exampleEnv_def handOff_def SendC_def
        decimal_examples SetImmediatelyAvailable_def)

text \<open>C8, as the claim states it, fails on an empty snapshot: validator \<open>A\<close> proposes with
  no pending transaction, the proposal carrying the empty-batch identifier is handed to
  the engine, and the retrieval cache holds no record of that identifier.\<close>

theorem EnterRound_empty_batch_not_cached:
  "(case EnterRound exampleEnv \<lparr>Done = None\<rparr> (exampleStrategy\<lparr>txBuf := []\<rparr>)
           exampleRoundView OpenChan of
      (res, c') \<Rightarrow>
        res = Returned None \<and>
        last (calls c') = SentProposal \<lparr>Proposal.DataID = emptyDataID 10 0,
                            BlockAnnotations = \<lparr>User = [], Driver = ''1000''\<rparr>,
                            ProposalAnnotations = \<lparr>User = [], Driver = []\<rparr>\<rparr> \<and>
        bdrCache c' (emptyDataID 10 0) = None)"
  by (simp add: example_EnterRound_empty) (simp add: exampleStrategy_def)

text \<open>C8, amended: in every \<open>EnterRound\<close> invocation in which the local identity is the
  selected proposer, the destination is present and the hook returns nil, a proposal was
  handed to the engine. With a non-empty snapshot the dissemination collaborator was
  called, the proposal carries the identifier it returned, and that identifier was marked
  immediately available in the retrieval cache, with the exact snapshot and the encoded
  bytes the collaborator returned, before the handoff. With an empty snapshot the
  proposal carries the empty-batch identifier for the round, no dissemination call and
  no cache write were made, and the cache is unchanged.\<close>

theorem EnterRound_proposal_data:
  assumes "proposerSelection c (RoundView.Height rv) (RoundView.Round rv) (ValidatorSet rv) = Returned v"
      and "PubKey v = Some k" and "signerPubKey c = Some k"
      and "EnterRound E ctx c rv OpenChan = (Returned None, c')"
  shows "(txBuf c \<noteq> [] \<longrightarrow>
            (\<exists>res ba pda.
               provider c (RoundView.Height rv) (RoundView.Round rv) (txBuf c) = Inr res \<and>
               calls c' = calls c @
                 [CalledProposerSelection (RoundView.Height rv) (RoundView.Round rv),
                  CalledBuffered,
                  CalledProvide (RoundView.Height rv) (RoundView.Round rv) (txBuf c),
                  CalledSetImmediatelyAvailable (ProvideResult.DataID res) (txBuf c) (Encoded res),
                  SentProposal \<lparr>Proposal.DataID = ProvideResult.DataID res,
                                BlockAnnotations = \<lparr>User = [], Driver = ba\<rparr>,
                                ProposalAnnotations = \<lparr>User = [], Driver = pda\<rparr>\<rparr>] \<and>
               bdrCache c' = (bdrCache c)(ProvideResult.DataID res \<mapsto>
                 \<lparr>Ready = True, Transactions = txBuf c, EncodedData = Encoded res\<rparr>)))
       \<and> (txBuf c = [] \<longrightarrow>
            (\<exists>ba.
               calls c' = calls c @
                 [CalledProposerSelection (RoundView.Height rv) (RoundView.Round rv),
                  CalledBuffered,
                  SentProposal \<lparr>Proposal.DataID =
                                  env.DataID E (RoundView.Height rv) (RoundView.Round rv) 0 [],
                                BlockAnnotations = \<lparr>User = [], Driver = ba\<rparr>,
                                ProposalAnnotations = \<lparr>User = [], Driver = []\<rparr>\<rparr>] \<and>
               bdrCache c' = bdrCache c))"
proof -
  let ?c2 = "called (c\<lparr>curH := RoundView.Height rv, curR := RoundView.Round rv\<rparr>)
              (CalledProposerSelection (RoundView.Height rv) (RoundView.Round rv))"
  have p: "propose E ctx ?c2 = (Returned None, c')"
    using EnterRound_proposing [OF assms(1-3)] assms(4) by simp
  have f: "txBuf ?c2 = txBuf c" "curH ?c2 = RoundView.Height rv" "curR ?c2 = RoundView.Round rv"
    "provider ?c2 = provider c" "bdrCache ?c2 = bdrCache c"
    "calls ?c2 = calls c @ [CalledProposerSelection (RoundView.Height rv) (RoundView.Round rv)]"
    by (simp_all add: called_def)
  show ?thesis
  proof (intro conjI impI)
    assume "txBuf c \<noteq> []"
    then have "txBuf ?c2 \<noteq> []" by (simp add: f)
    from propose_nonempty [OF p this] show "\<exists>res ba pda.
               provider c (RoundView.Height rv) (RoundView.Round rv) (txBuf c) = Inr res \<and>
               calls c' = calls c @
                 [CalledProposerSelection (RoundView.Height rv) (RoundView.Round rv),
                  CalledBuffered,
                  CalledProvide (RoundView.Height rv) (RoundView.Round rv) (txBuf c),
                  CalledSetImmediatelyAvailable (ProvideResult.DataID res) (txBuf c) (Encoded res),
                  SentProposal \<lparr>Proposal.DataID = ProvideResult.DataID res,
                                BlockAnnotations = \<lparr>User = [], Driver = ba\<rparr>,
                                ProposalAnnotations = \<lparr>User = [], Driver = pda\<rparr>\<rparr>] \<and>
               bdrCache c' = (bdrCache c)(ProvideResult.DataID res \<mapsto>
                 \<lparr>Ready = True, Transactions = txBuf c, EncodedData = Encoded res\<rparr>)"
      unfolding f by simp
  next
    assume "txBuf c = []"
    then have "txBuf ?c2 = []" by (simp add: f)
    from propose_empty [OF p this] show "\<exists>ba.
               calls c' = calls c @
                 [CalledProposerSelection (RoundView.Height rv) (RoundView.Round rv),
                  CalledBuffered,
                  SentProposal \<lparr>Proposal.DataID =
                                  env.DataID E (RoundView.Height rv) (RoundView.Round rv) 0 [],
                                BlockAnnotations = \<lparr>User = [], Driver = ba\<rparr>,
                                ProposalAnnotations = \<lparr>User = [], Driver = []\<rparr>\<rparr>] \<and>
               bdrCache c' = bdrCache c"
      unfolding f by simp
  qed
qed

theorem EnterRound_proposal_data_witness:
  "bdrCache (snd (EnterRound exampleEnv \<lparr>Done = None\<rparr> exampleStrategy exampleRoundView OpenChan))
     = [exampleID \<mapsto> \<lparr>Ready = True, Transactions = [''tx1''], EncodedData = ''tx1''\<rparr>]
   \<and> bdrCache (snd (EnterRound exampleEnv \<lparr>Done = None\<rparr> (exampleStrategy\<lparr>txBuf := []\<rparr>)
                       exampleRoundView OpenChan))
     = Map.empty"
proof -
  let ?v = "\<lparr>PubKey = Some ''A'', Power = 60\<rparr>"
  have sel: "proposerSelection exampleStrategy (RoundView.Height exampleRoundView)
               (RoundView.Round exampleRoundView) (ValidatorSet exampleRoundView) = Returned ?v"
    by (simp add: exampleStrategy_def exampleRoundView_def exampleSelection)
  have sel': "proposerSelection (exampleStrategy\<lparr>txBuf := []\<rparr>) (RoundView.Height exampleRoundView)
               (RoundView.Round exampleRoundView) (ValidatorSet exampleRoundView) = Returned ?v"
    by (simp add: exampleStrategy_def exampleRoundView_def exampleSelection)
  have key: "PubKey ?v = Some ''A''" by simp
  have signer: "signerPubKey exampleStrategy = Some ''A''"
    "signerPubKey (exampleStrategy\<lparr>txBuf := []\<rparr>) = Some ''A''"
    by (simp_all add: exampleStrategy_def)
  have a: "bdrCache (snd (EnterRound exampleEnv \<lparr>Done = None\<rparr> exampleStrategy exampleRoundView
                            OpenChan))
             = [exampleID \<mapsto> \<lparr>Ready = True, Transactions = [''tx1''], EncodedData = ''tx1''\<rparr>]"
    using EnterRound_proposal_data [OF sel key signer(1) example_EnterRound]
    by (simp add: example_EnterRound)
  have b: "bdrCache (snd (EnterRound exampleEnv \<lparr>Done = None\<rparr> (exampleStrategy\<lparr>txBuf := []\<rparr>)
                            exampleRoundView OpenChan))
             = Map.empty"
    using EnterRound_proposal_data [OF sel' key signer(2) example_EnterRound_empty]
    by (simp add: example_EnterRound_empty) (simp add: exampleStrategy_def)
  from a b show ?thesis by simp
qed

section \<open>Proposal consideration: the first acceptable candidate\<close>

text \<open>C10: the result of \<open>ConsiderProposedBlocks\<close>, hash, error and state alike, does not
  depend on its reason argument.\<close>

theorem ConsiderProposedBlocks_ignores_reason:
  "ConsiderProposedBlocks E c phs reason = ConsiderProposedBlocks E c phs reason'"
  by (induction phs arbitrary: c) (auto split: prod.splits verdict.splits)

subsection \<open>The simulation chain\<close>

lemma stateAfter_None_mono:
  "stateAfter c txs k = None \<Longrightarrow> k \<le> j \<Longrightarrow> stateAfter c txs j = None"
proof (induction j)
  case 0
  then show ?case by simp
next
  case (Suc j)
  show ?case
  proof (cases "k = Suc j")
    case True
    with Suc.prems show ?thesis by simp
  next
    case False
    with Suc.prems have "k \<le> j" by simp
    with Suc have "stateAfter c txs j = None" by simp
    then show ?thesis by simp
  qed
qed

text \<open>A batch simulates successfully exactly when no position of it fails.\<close>

lemma simulatesSuccessfully_iff_all:
  "simulatesSuccessfully c txs \<longleftrightarrow> txs \<noteq> [] \<and> (\<forall>k<length txs. stateAfter c txs k \<noteq> None)"
proof (cases "txs = []")
  case True
  then show ?thesis by (simp add: simulatesSuccessfully_def)
next
  case False
  then have lt: "length txs - 1 < length txs" by simp
  show ?thesis
  proof
    assume ok: "simulatesSuccessfully c txs"
    have "stateAfter c txs k \<noteq> None" if "k < length txs" for k
    proof
      assume "stateAfter c txs k = None"
      moreover from that have "k \<le> length txs - 1" by simp
      ultimately have "stateAfter c txs (length txs - 1) = None"
        by (rule stateAfter_None_mono)
      with ok show False by (simp add: simulatesSuccessfully_def)
    qed
    with False show "txs \<noteq> [] \<and> (\<forall>k<length txs. stateAfter c txs k \<noteq> None)" by simp
  next
    assume "txs \<noteq> [] \<and> (\<forall>k<length txs. stateAfter c txs k \<noteq> None)"
    with lt show "simulatesSuccessfully c txs" by (simp add: simulatesSuccessfully_def)
  qed
qed

lemma stepOK_Some:
  "stepOK res = Some state \<Longrightarrow> \<exists>txRes. res = Inr (txRes, state) \<and> Error txRes = None"
  by (auto simp: stepOK_def split: sum.splits if_splits)

lemma stepOK_None:
  "stepOK res = None \<Longrightarrow>
     (\<exists>e. res = Inl e) \<or> (\<exists>txRes state e. res = Inr (txRes, state) \<and> Error txRes = Some e)"
  by (auto simp: stepOK_def split: sum.splits if_splits)

lemma simulateRest_step_ok:
  "stepOK (am_SimulateWithState c state tx) = Some state' \<Longrightarrow>
     simulateRest c state (tx # rest) = simulateRest c state' rest"
  by (drule stepOK_Some) auto

lemma simulateRest_step_fails:
  "stepOK (am_SimulateWithState c state tx) = None \<Longrightarrow>
     simulateRest c state (tx # rest) \<noteq> None"
  by (drule stepOK_None) auto

text \<open>The inner loop, started after a prefix of the batch in the state that prefix left,
  runs to its end exactly when the whole batch reaches its last position.\<close>

lemma simulateRest_stateAfter:
  assumes "txs = pre @ rest" and "pre \<noteq> []"
      and "stateAfter c txs (length pre - 1) = Some state"
  shows "simulateRest c state rest = None \<longleftrightarrow> stateAfter c txs (length txs - 1) \<noteq> None"
  using assms
proof (induction rest arbitrary: pre state)
  case Nil
  then show ?case by simp
next
  case (Cons tx rest)
  obtain m where len: "length pre = Suc m" using Cons.prems(2) by (cases pre) auto
  have nth: "txs ! Suc m = tx" using Cons.prems(1) len by (metis nth_append_length)
  have "stateAfter c txs m = Some state" using Cons.prems(3) len by simp
  then have step: "stateAfter c txs (Suc m) = stepOK (am_SimulateWithState c state tx)"
    using nth by simp
  show ?case
  proof (cases "stepOK (am_SimulateWithState c state tx)")
    case None
    then have "stateAfter c txs (Suc m) = None" using step by simp
    moreover have "Suc m \<le> length txs - 1" using Cons.prems(1) len by simp
    ultimately have "stateAfter c txs (length txs - 1) = None"
      by (rule stateAfter_None_mono)
    moreover have "simulateRest c state (tx # rest) \<noteq> None"
      using None by (rule simulateRest_step_fails)
    ultimately show ?thesis by simp
  next
    case (Some state')
    then have s: "stateAfter c txs (length (pre @ [tx]) - 1) = Some state'"
      using step len by simp
    have t: "txs = (pre @ [tx]) @ rest" using Cons.prems(1) by simp
    have "simulateRest c state' rest = None \<longleftrightarrow> stateAfter c txs (length txs - 1) \<noteq> None"
      by (rule Cons.IH [OF t _ s]) simp
    moreover have "simulateRest c state (tx # rest) = simulateRest c state' rest"
      using Some by (rule simulateRest_step_ok)
    ultimately show ?thesis by simp
  qed
qed

subsection \<open>One candidate\<close>

lemma checkAnnotation_verdict:
  "fst (checkAnnotation E c ph) =
     (if claimedTime E ph \<noteq> None \<and> \<not> claimsFutureTime E c ph
      then Accept (Hash (Header ph)) else Continue)"
  by (simp add: checkAnnotation_def claimedTime_def claimsFutureTime_def Time_def Let_def
           split: sum.splits)

lemma simulateBatch_not_ready:
  "\<not> Ready bdr \<Longrightarrow> simulateBatch E c ph bdr = (Continue, c)"
  by (simp add: simulateBatch_def)

lemma simulateBatch_empty:
  "Ready bdr \<Longrightarrow> Transactions bdr = [] \<Longrightarrow>
     simulateBatch E c ph bdr = (Panic ''index out of range'', c)"
  by (simp add: simulateBatch_def)

lemma simulateBatch_valid:
  assumes "Ready bdr" and "simulatesSuccessfully c (Transactions bdr)"
  shows "simulateBatch E c ph bdr = checkAnnotation E c ph"
proof -
  obtain tx0 rest where txs: "Transactions bdr = tx0 # rest"
    using assms(2) by (cases "Transactions bdr") (auto simp: simulatesSuccessfully_def)
  have last: "stateAfter c (tx0 # rest) (length rest) \<noteq> None"
    using assms(2) txs by (simp add: simulatesSuccessfully_def)
  have "stateAfter c (tx0 # rest) 0 \<noteq> None"
  proof
    assume "stateAfter c (tx0 # rest) 0 = None"
    then have "stateAfter c (tx0 # rest) (length rest) = None"
      by (rule stateAfter_None_mono) simp
    with last show False by simp
  qed
  then obtain state where s0: "stepOK (am_Simulate c tx0) = Some state" by auto
  from stepOK_Some [OF this]
  obtain txRes where sim: "am_Simulate c tx0 = Inr (txRes, state)" "Error txRes = None"
    by auto
  have st0: "stateAfter c (tx0 # rest) (length [tx0] - 1) = Some state" using s0 by simp
  have split: "tx0 # rest = [tx0] @ rest" by simp
  have "simulateRest c state rest = None \<longleftrightarrow>
          stateAfter c (tx0 # rest) (length (tx0 # rest) - 1) \<noteq> None"
    by (rule simulateRest_stateAfter [OF split _ st0]) simp
  then have r: "simulateRest c state rest = None" using last by simp
  show ?thesis
    by (simp add: simulateBatch_def assms(1) txs sim r)
qed

lemma simulateBatch_invalid:
  assumes "Ready bdr" and "Transactions bdr \<noteq> []"
      and "\<not> simulatesSuccessfully c (Transactions bdr)"
  shows "\<exists>entry. simulateBatch E c ph bdr = (Continue, c\<lparr>log := log c @ [entry]\<rparr>)"
proof -
  obtain tx0 rest where txs: "Transactions bdr = tx0 # rest"
    using assms(2) by (cases "Transactions bdr") auto
  have last: "stateAfter c (tx0 # rest) (length rest) = None"
    using assms(3) txs by (simp add: simulatesSuccessfully_def)
  show ?thesis
  proof (cases "stepOK (am_Simulate c tx0)")
    case None
    from stepOK_None [OF this] show ?thesis
    proof (elim disjE exE conjE)
      fix e assume "am_Simulate c tx0 = Inl e"
      then have "simulateBatch E c ph bdr =
          (Continue, c\<lparr>log := log c @ [(Debug, ''Ignoring proposed block due to failure to simulate'')]\<rparr>)"
        by (simp add: simulateBatch_def assms(1) txs logf_def)
      then show ?thesis by (rule exI)
    next
      fix txRes state e assume "am_Simulate c tx0 = Inr (txRes, state)" "Error txRes = Some e"
      then have "simulateBatch E c ph bdr =
          (Continue, c\<lparr>log := log c @
             [(Debug, ''Ignoring proposed block due to failure to apply transaction'')]\<rparr>)"
        by (simp add: simulateBatch_def assms(1) txs logf_def)
      then show ?thesis by (rule exI)
    qed
  next
    case (Some state)
    from stepOK_Some [OF this]
    obtain txRes where sim: "am_Simulate c tx0 = Inr (txRes, state)" "Error txRes = None"
      by auto
    have st0: "stateAfter c (tx0 # rest) (length [tx0] - 1) = Some state" using Some by simp
    have split: "tx0 # rest = [tx0] @ rest" by simp
    have "simulateRest c state rest = None \<longleftrightarrow>
            stateAfter c (tx0 # rest) (length (tx0 # rest) - 1) \<noteq> None"
      by (rule simulateRest_stateAfter [OF split _ st0]) simp
    then have "simulateRest c state rest \<noteq> None" using last by simp
    then obtain entry where "simulateRest c state rest = Some entry" by auto
    then have "simulateBatch E c ph bdr = (Continue, c\<lparr>log := log c @ [entry]\<rparr>)"
      by (simp add: simulateBatch_def assms(1) txs sim)
    then show ?thesis by (rule exI)
  qed
qed

text \<open>How the loop body depends on checks 1 to 3.\<close>

lemma considerCandidate_rejected:
  "roundContextChecks E c ph = None \<Longrightarrow> fst (considerCandidate E c ph) = Continue"
  by (auto simp: roundContextChecks_def considerCandidate_def split: if_splits sum.splits)

lemma considerCandidate_no_data:
  "roundContextChecks E c ph = Some 0 \<Longrightarrow> considerCandidate E c ph = checkAnnotation E c ph"
  by (auto simp: roundContextChecks_def considerCandidate_def split: if_splits sum.splits)

lemma considerCandidate_absent:
  "roundContextChecks E c ph = Some nTxs \<Longrightarrow> nTxs \<noteq> 0 \<Longrightarrow>
   bdrCache c (Header.DataID (Header ph)) = None \<Longrightarrow>
     considerCandidate E c ph = (Continue, startRetrieval c ph)"
  by (auto simp: roundContextChecks_def considerCandidate_def split: if_splits sum.splits)

lemma considerCandidate_cached:
  "roundContextChecks E c ph = Some nTxs \<Longrightarrow> nTxs \<noteq> 0 \<Longrightarrow>
   bdrCache c (Header.DataID (Header ph)) = Some bdr \<Longrightarrow>
     considerCandidate E c ph = simulateBatch E c ph bdr"
  by (auto simp: roundContextChecks_def considerCandidate_def split: if_splits sum.splits)

text \<open>One iteration of the loop, on a candidate that does not make the read of the first
  transaction panic, accepts the candidate exactly when it passes every check.\<close>

lemma considerCandidate_verdict:
  assumes "\<not> emptyReadyBatch E c ph"
  shows "fst (considerCandidate E c ph) =
           (if passesEveryCheck E c ph then Accept (Hash (Header ph)) else Continue)"
proof (cases "roundContextChecks E c ph")
  case None
  then show ?thesis
    by (simp add: considerCandidate_rejected passesEveryCheck_def)
next
  case (Some nTxs)
  show ?thesis
  proof (cases "nTxs = 0")
    case True
    with Some show ?thesis
      by (simp add: considerCandidate_no_data checkAnnotation_verdict passesEveryCheck_def
            dataChecks_def)
  next
    case nonzero: False
    show ?thesis
    proof (cases "bdrCache c (Header.DataID (Header ph))")
      case None
      with Some nonzero show ?thesis
        by (simp add: considerCandidate_absent passesEveryCheck_def dataChecks_def)
    next
      case (Some bdr)
      note cached = considerCandidate_cached [OF \<open>roundContextChecks E c ph = Some nTxs\<close> nonzero Some]
      show ?thesis
      proof (cases "Ready bdr")
        case False
        with \<open>roundContextChecks E c ph = Some nTxs\<close> nonzero Some show ?thesis
          by (simp add: cached simulateBatch_not_ready passesEveryCheck_def dataChecks_def)
      next
        case True
        have nonempty: "Transactions bdr \<noteq> []"
          using assms \<open>roundContextChecks E c ph = Some nTxs\<close> nonzero Some True
          by (auto simp: emptyReadyBatch_def)
        show ?thesis
        proof (cases "simulatesSuccessfully c (Transactions bdr)")
          case valid: True
          with \<open>roundContextChecks E c ph = Some nTxs\<close> nonzero Some True show ?thesis
            by (simp add: cached simulateBatch_valid checkAnnotation_verdict passesEveryCheck_def
                  dataChecks_def)
        next
          case invalid: False
          from simulateBatch_invalid [OF True nonempty invalid, of E ph]
          have "fst (simulateBatch E c ph bdr) = Continue" by auto
          with \<open>roundContextChecks E c ph = Some nTxs\<close> nonzero Some True invalid show ?thesis
            by (simp add: cached passesEveryCheck_def dataChecks_def)
        qed
      qed
    qed
  qed
qed

subsection \<open>The loop\<close>

lemma ConsiderProposedBlocks_Continue:
  "considerCandidate E c ph = (Continue, c') \<Longrightarrow>
     ConsiderProposedBlocks E c (ph # phs) reason = ConsiderProposedBlocks E c' phs reason"
  by simp

lemma ConsiderProposedBlocks_Accept:
  "fst (considerCandidate E c ph) = Accept h \<Longrightarrow>
     fst (ConsiderProposedBlocks E c (ph # phs) reason) = Returned (h, None)"
  by (cases "considerCandidate E c ph") simp

lemma ConsiderProposedBlocks_skip:
  "fst (considerCandidate E c ph) = Continue \<Longrightarrow>
     ConsiderProposedBlocks E c (ph # phs) reason =
       ConsiderProposedBlocks E (snd (considerCandidate E c ph)) phs reason"
  by (cases "considerCandidate E c ph") simp

lemma firstAcceptable_Cons:
  "firstAcceptable E c (ph # phs) =
     (if passesEveryCheck E c ph then Some ph
      else firstAcceptable E (snd (considerCandidate E c ph)) phs)"
  by (simp add: firstAcceptable_def)

lemma noEmptyReadyBatch_Cons:
  "noEmptyReadyBatch E c (ph # phs) \<longleftrightarrow>
     \<not> emptyReadyBatch E c ph \<and> noEmptyReadyBatch E (snd (considerCandidate E c ph)) phs"
  by (simp add: noEmptyReadyBatch_def)

text \<open>C2: \<open>ConsiderProposedBlocks\<close> goes through the candidates in list order and returns
  the header hash, with a nil error, of the first candidate that passes every check in the
  state in which it is evaluated; when no candidate of the list does, it returns the empty
  hash with \<open>ErrProposedBlockChoiceNotReady\<close>. (The hypothesis is the invariant the source
  relies on when it reads \<open>txs[0]\<close>: no ready record with an empty batch under an identifier
  with a nonzero count.)\<close>

theorem ConsiderProposedBlocks_first_acceptable:
  assumes "noEmptyReadyBatch E c phs"
  shows "fst (ConsiderProposedBlocks E c phs reason) =
           (case firstAcceptable E c phs of
              Some ph \<Rightarrow> Returned (Hash (Header ph), None)
            | None \<Rightarrow> Returned ('''', Some ErrProposedBlockChoiceNotReady))"
  using assms
proof (induction phs arbitrary: c)
  case Nil
  show ?case by (simp add: firstAcceptable_def)
next
  case (Cons ph phs)
  from Cons.prems have safe: "\<not> emptyReadyBatch E c ph"
    and rest: "noEmptyReadyBatch E (snd (considerCandidate E c ph)) phs"
    by (simp_all add: noEmptyReadyBatch_Cons)
  show ?case
  proof (cases "passesEveryCheck E c ph")
    case True
    then have "fst (considerCandidate E c ph) = Accept (Hash (Header ph))"
      using considerCandidate_verdict [OF safe] by simp
    then have "fst (ConsiderProposedBlocks E c (ph # phs) reason) = Returned (Hash (Header ph), None)"
      by (rule ConsiderProposedBlocks_Accept)
    with True show ?thesis by (simp add: firstAcceptable_Cons)
  next
    case False
    then have "fst (considerCandidate E c ph) = Continue"
      using considerCandidate_verdict [OF safe] by simp
    then have "ConsiderProposedBlocks E c (ph # phs) reason =
                 ConsiderProposedBlocks E (snd (considerCandidate E c ph)) phs reason"
      by (rule ConsiderProposedBlocks_skip)
    with False Cons.IH [OF rest] show ?thesis by (simp add: firstAcceptable_Cons)
  qed
qed

text \<open>The only error the hook ever returns is the not-ready sentinel, with the empty hash.\<close>

lemma ConsiderProposedBlocks_error:
  "fst (ConsiderProposedBlocks E c phs reason) = Returned (h, Some e) \<Longrightarrow>
     e = ErrProposedBlockChoiceNotReady \<and> h = ''''"
proof (induction phs arbitrary: c)
  case Nil
  then show ?case by simp
next
  case (Cons ph phs)
  obtain v c' where step: "considerCandidate E c ph = (v, c')"
    by (cases "considerCandidate E c ph")
  show ?case
  proof (cases v)
    case (Accept h')
    with step Cons.prems show ?thesis by simp
  next
    case Continue
    with step Cons.prems have "fst (ConsiderProposedBlocks E c' phs reason) = Returned (h, Some e)"
      by simp
    then show ?thesis by (rule Cons.IH)
  next
    case (Panic m)
    with step Cons.prems show ?thesis by simp
  qed
qed

text \<open>C3: for a candidate that has passed the round-context and identifier checks, whose
  identifier has a nonzero transaction count and whose cached record is ready with its
  transactions: if the chain simulation (first transaction against the latest committed
  state, each later one against the state the previous step returned) fails at any
  position, by a state-access failure or an invalid transaction, the iteration only logs
  and the loop continues with the next candidate; the candidate goes on to the annotation
  checks only when every position succeeds.\<close>

theorem failed_simulation_skips_candidate:
  assumes "roundContextChecks E c ph = Some nTxs" and "nTxs \<noteq> 0"
      and "bdrCache c (Header.DataID (Header ph)) = Some bdr"
      and "Ready bdr" and "Transactions bdr \<noteq> []"
  shows "((\<exists>k<length (Transactions bdr). stateAfter c (Transactions bdr) k = None) \<longrightarrow>
            (\<exists>entry.
               considerCandidate E c ph = (Continue, c\<lparr>log := log c @ [entry]\<rparr>) \<and>
               ConsiderProposedBlocks E c (ph # phs) reason =
                 ConsiderProposedBlocks E (c\<lparr>log := log c @ [entry]\<rparr>) phs reason))
       \<and> ((\<forall>k<length (Transactions bdr). stateAfter c (Transactions bdr) k \<noteq> None) \<longrightarrow>
            considerCandidate E c ph = checkAnnotation E c ph)"
proof (intro conjI impI)
  note cached = considerCandidate_cached [OF assms(1-3)]
  {
    assume "\<exists>k<length (Transactions bdr). stateAfter c (Transactions bdr) k = None"
    then have "\<not> simulatesSuccessfully c (Transactions bdr)"
      by (simp add: simulatesSuccessfully_iff_all)
    from simulateBatch_invalid [OF assms(4,5) this, of E ph]
    obtain entry where "simulateBatch E c ph bdr = (Continue, c\<lparr>log := log c @ [entry]\<rparr>)" ..
    then have skip: "considerCandidate E c ph = (Continue, c\<lparr>log := log c @ [entry]\<rparr>)"
      by (simp add: cached)
    then have "ConsiderProposedBlocks E c (ph # phs) reason =
                 ConsiderProposedBlocks E (c\<lparr>log := log c @ [entry]\<rparr>) phs reason"
      by (rule ConsiderProposedBlocks_Continue)
    with skip show "\<exists>entry.
               considerCandidate E c ph = (Continue, c\<lparr>log := log c @ [entry]\<rparr>) \<and>
               ConsiderProposedBlocks E c (ph # phs) reason =
                 ConsiderProposedBlocks E (c\<lparr>log := log c @ [entry]\<rparr>) phs reason"
      by blast
  }
  {
    assume "\<forall>k<length (Transactions bdr). stateAfter c (Transactions bdr) k \<noteq> None"
    with assms(5) have "simulatesSuccessfully c (Transactions bdr)"
      by (simp add: simulatesSuccessfully_iff_all)
    then show "considerCandidate E c ph = checkAnnotation E c ph"
      by (simp add: cached simulateBatch_valid [OF assms(4)])
  }
qed

lemma startRetrieval_effect:
  "startRetrieval c ph =
     c\<lparr>bdrCache := snd (pbdr c (bdrCache c) (Header.DataID (Header ph))
                           (Driver (ProposedHeader.Annotations ph))),
       calls := calls c @ [CalledRetrieve (Header.DataID (Header ph))
                             (Driver (ProposedHeader.Annotations ph))],
       log := log c @
         (case fst (pbdr c (bdrCache c) (Header.DataID (Header ph))
                      (Driver (ProposedHeader.Annotations ph))) of
            None \<Rightarrow> []
          | Some e \<Rightarrow> [(Warn, ''Failed to initiate retrieval of proposed data'')])\<rparr>"
  by (simp add: startRetrieval_def Let_def called_def logf_def split: prod.splits option.splits)

text \<open>C4: for a candidate that has passed the round-context and identifier checks and
  whose identifier has a nonzero transaction count. When the identifier is absent from the
  retrieval cache, the iteration calls the retriever for it and the loop continues with the
  next candidate; a failure of that call adds a warning to the log and nothing else. When
  the record is present but not ready, the iteration changes nothing and the loop continues
  with the next candidate. The error the hook returns is never anything but the not-ready
  sentinel.\<close>

theorem absent_or_pending_data_defers:
  assumes "roundContextChecks E c ph = Some nTxs" and "nTxs \<noteq> 0"
  shows "(bdrCache c (Header.DataID (Header ph)) = None \<longrightarrow>
            considerCandidate E c ph = (Continue, startRetrieval c ph) \<and>
            startRetrieval c ph =
              c\<lparr>bdrCache := snd (pbdr c (bdrCache c) (Header.DataID (Header ph))
                                    (Driver (ProposedHeader.Annotations ph))),
                calls := calls c @ [CalledRetrieve (Header.DataID (Header ph))
                                      (Driver (ProposedHeader.Annotations ph))],
                log := log c @
                  (case fst (pbdr c (bdrCache c) (Header.DataID (Header ph))
                               (Driver (ProposedHeader.Annotations ph))) of
                     None \<Rightarrow> []
                   | Some e \<Rightarrow> [(Warn, ''Failed to initiate retrieval of proposed data'')])\<rparr> \<and>
            ConsiderProposedBlocks E c (ph # phs) reason =
              ConsiderProposedBlocks E (startRetrieval c ph) phs reason)
       \<and> (\<forall>bdr. bdrCache c (Header.DataID (Header ph)) = Some bdr \<and> \<not> Ready bdr \<longrightarrow>
            considerCandidate E c ph = (Continue, c) \<and>
            ConsiderProposedBlocks E c (ph # phs) reason = ConsiderProposedBlocks E c phs reason)
       \<and> (\<forall>h e. fst (ConsiderProposedBlocks E c (ph # phs) reason) = Returned (h, Some e) \<longrightarrow>
            e = ErrProposedBlockChoiceNotReady)"
proof (intro conjI impI allI)
  assume absent: "bdrCache c (Header.DataID (Header ph)) = None"
  show skip: "considerCandidate E c ph = (Continue, startRetrieval c ph)"
    by (rule considerCandidate_absent [OF assms absent])
  show "startRetrieval c ph =
              c\<lparr>bdrCache := snd (pbdr c (bdrCache c) (Header.DataID (Header ph))
                                    (Driver (ProposedHeader.Annotations ph))),
                calls := calls c @ [CalledRetrieve (Header.DataID (Header ph))
                                      (Driver (ProposedHeader.Annotations ph))],
                log := log c @
                  (case fst (pbdr c (bdrCache c) (Header.DataID (Header ph))
                               (Driver (ProposedHeader.Annotations ph))) of
                     None \<Rightarrow> []
                   | Some e \<Rightarrow> [(Warn, ''Failed to initiate retrieval of proposed data'')])\<rparr>"
    by (rule startRetrieval_effect)
  show "ConsiderProposedBlocks E c (ph # phs) reason =
          ConsiderProposedBlocks E (startRetrieval c ph) phs reason"
    using skip by (rule ConsiderProposedBlocks_Continue)
next
  fix bdr
  assume pending: "bdrCache c (Header.DataID (Header ph)) = Some bdr \<and> \<not> Ready bdr"
  then have "considerCandidate E c ph = simulateBatch E c ph bdr"
    using considerCandidate_cached [OF assms] by simp
  with pending show skip: "considerCandidate E c ph = (Continue, c)"
    by (simp add: simulateBatch_not_ready)
  show "ConsiderProposedBlocks E c (ph # phs) reason = ConsiderProposedBlocks E c phs reason"
    using skip by (rule ConsiderProposedBlocks_Continue)
next
  fix h e
  assume "fst (ConsiderProposedBlocks E c (ph # phs) reason) = Returned (h, Some e)"
  from ConsiderProposedBlocks_error [OF this]
  show "e = ErrProposedBlockChoiceNotReady" by simp
qed

text \<open>An iteration that accepts has passed the annotation checks.\<close>

lemma considerCandidate_Accept:
  assumes "fst (considerCandidate E c ph) = Accept h"
  shows "h = Hash (Header ph) \<and> \<not> claimsFutureTime E c ph"
proof -
  have "fst (checkAnnotation E c ph) = Accept h"
  proof (cases "roundContextChecks E c ph")
    case None
    with assms show ?thesis by (simp add: considerCandidate_rejected)
  next
    case (Some nTxs)
    show ?thesis
    proof (cases "nTxs = 0")
      case True
      with Some assms show ?thesis by (simp add: considerCandidate_no_data)
    next
      case nonzero: False
      show ?thesis
      proof (cases "bdrCache c (Header.DataID (Header ph))")
        case None
        with assms show ?thesis
          by (simp add: considerCandidate_absent [OF Some nonzero])
      next
        case (Some bdr)
        note cached = considerCandidate_cached [OF \<open>roundContextChecks E c ph = Some nTxs\<close> nonzero Some]
        show ?thesis
        proof (cases "Ready bdr")
          case False
          with assms show ?thesis by (simp add: cached simulateBatch_not_ready)
        next
          case True
          show ?thesis
          proof (cases "Transactions bdr = []")
            case empty: True
            with assms True show ?thesis by (simp add: cached simulateBatch_empty)
          next
            case nonempty: False
            show ?thesis
            proof (cases "simulatesSuccessfully c (Transactions bdr)")
              case valid: True
              with assms True show ?thesis by (simp add: cached simulateBatch_valid)
            next
              case invalid: False
              from simulateBatch_invalid [OF True nonempty invalid, of E ph]
              have "fst (simulateBatch E c ph bdr) = Continue" by auto
              with assms show ?thesis by (simp add: cached)
            qed
          qed
        qed
      qed
    qed
  qed
  then show ?thesis
    by (simp add: checkAnnotation_verdict split: if_splits)
qed

text \<open>C9: a hash is never returned as accepted when every candidate of the list that
  carries it claims, in its block annotation, a proposal time strictly after the wall-clock
  reading taken at its evaluation, whatever the other checks say.\<close>

theorem future_time_never_accepted:
  assumes "list_all (\<lambda>(ph, c'). Hash (Header ph) = h \<longrightarrow> claimsFutureTime E c' ph)
             (zip phs (statesBefore E c phs))"
  shows "fst (ConsiderProposedBlocks E c phs reason) \<noteq> Returned (h, None)"
  using assms
proof (induction phs arbitrary: c)
  case Nil
  show ?case by simp
next
  case (Cons ph phs)
  from Cons.prems have here: "Hash (Header ph) = h \<longrightarrow> claimsFutureTime E c ph"
    and rest: "list_all (\<lambda>(ph, c'). Hash (Header ph) = h \<longrightarrow> claimsFutureTime E c' ph)
                 (zip phs (statesBefore E (snd (considerCandidate E c ph)) phs))"
    by simp_all
  obtain v c' where step: "considerCandidate E c ph = (v, c')"
    by (cases "considerCandidate E c ph")
  show ?case
  proof (cases v)
    case (Accept h')
    with step have "fst (considerCandidate E c ph) = Accept h'" by simp
    from considerCandidate_Accept [OF this] here have "h' \<noteq> h" by auto
    with step Accept show ?thesis by simp
  next
    case Continue
    with step have "ConsiderProposedBlocks E c (ph # phs) reason =
                      ConsiderProposedBlocks E c' phs reason"
      by simp
    moreover have "fst (ConsiderProposedBlocks E c' phs reason) \<noteq> Returned (h, None)"
      using Cons.IH [of c'] rest step by simp
    ultimately show ?thesis by simp
  next
    case (Panic m)
    with step show ?thesis by simp
  qed
qed

subsection \<open>The properties on the example deployment\<close>

lemma parseUint_examples:
  "parseUint ''10'' = Some 10" "parseUint ''0'' = Some 0" "parseUint ''1'' = Some 1"
  "parseUint ''3'' = Some 3" "parseUint ''5'' = Some 5" "parseUint ''9'' = Some 9"
  "parseUint ''900'' = Some 900" "parseUint ''1001'' = Some 1001"
  by (simp_all add: parseUint_def digitVal_def)

lemma parseDataID_examples:
  "parseDataID (emptyDataID 10 0) = Inr (10, 0, 0, 0, zeroHash)"
  "parseDataID exampleID = Inr (10, 0, 1, 5, drop 9 exampleID)"
  "parseDataID exampleID3 = Inr (10, 0, 3, 9, drop 9 exampleID3)"
  by (simp_all add: parseDataID_def emptyDataID_def zeroHashSuffix_def zeroHash_def exampleID_def
        exampleID3_def decimal_examples parseUint_examples isHexHash_def)

lemma exampleID_distinct:
  "exampleID \<noteq> exampleID3" "exampleID3 \<noteq> exampleID"
  by (simp_all add: exampleID_def exampleID3_def)

lemma example_roundContextChecks:
  assumes "curH c = 10" and "curR c = 0"
  shows "roundContextChecks exampleEnv c (exampleHeader (emptyDataID 10 0) h t) = Some 0"
    and "roundContextChecks exampleEnv c (exampleHeader exampleID h t) = Some 1"
    and "roundContextChecks exampleEnv c (exampleHeader exampleID3 h t) = Some 3"
  using assms
  by (simp_all add: roundContextChecks_def exampleHeader_def exampleEnv_def parseDataID_examples)

lemma example_claimedTime:
  "claimedTime exampleEnv (exampleHeader dataID h ''900'') = Some 900"
  "claimedTime exampleEnv (exampleHeader dataID h ''1001'') = Some 1001"
  by (simp_all add: claimedTime_def exampleHeader_def exampleEnv_def parseUint_examples)

lemma example_fields:
  "curH exampleStrategy = 10" "curR exampleStrategy = 0" "nowCalls exampleStrategy = 0"
  "bdrCache exampleStrategy = Map.empty" "log exampleStrategy = []" "calls exampleStrategy = []"
  by (simp_all add: exampleStrategy_def)

lemma example_timeNow: "timeNow exampleEnv n = 1000 + int n"
  by (simp add: exampleEnv_def)

lemma example_future_candidate:
  "considerCandidate exampleEnv exampleStrategy (exampleHeader (emptyDataID 10 0) h ''1001'')
   = (Continue,
      logf (exampleStrategy\<lparr>nowCalls := Suc 0\<rparr>) Debug
        ''Ignoring proposed block due to block time in the future'')"
proof -
  have "considerCandidate exampleEnv exampleStrategy (exampleHeader (emptyDataID 10 0) h ''1001'')
        = checkAnnotation exampleEnv exampleStrategy (exampleHeader (emptyDataID 10 0) h ''1001'')"
    by (rule considerCandidate_no_data) (simp add: example_roundContextChecks example_fields)
  also have "\<dots> = (Continue,
      logf (exampleStrategy\<lparr>nowCalls := Suc 0\<rparr>) Debug
        ''Ignoring proposed block due to block time in the future'')"
    by (simp add: checkAnnotation_def Time_def exampleHeader_def exampleEnv_def
          parseUint_examples example_fields)
  finally show ?thesis .
qed

theorem ConsiderProposedBlocks_first_acceptable_witness:
  "fst (ConsiderProposedBlocks exampleEnv exampleStrategy
          [exampleHeader (emptyDataID 10 0) ''h1'' ''1001'',
           exampleHeader (emptyDataID 10 0) ''h2'' ''900''] ())
     = Returned (''h2'', None)
   \<and> fst (ConsiderProposedBlocks exampleEnv exampleStrategy
            [exampleHeader (emptyDataID 10 0) ''h1'' ''1001''] ())
     = Returned ('''', Some ErrProposedBlockChoiceNotReady)"
proof -
  let ?late = "exampleHeader (emptyDataID 10 0) ''h1'' ''1001''"
  let ?good = "exampleHeader (emptyDataID 10 0) ''h2'' ''900''"
  let ?c1 = "logf (exampleStrategy\<lparr>nowCalls := Suc 0\<rparr>) Debug
               ''Ignoring proposed block due to block time in the future''"
  have c1: "curH ?c1 = 10" "curR ?c1 = 0" "nowCalls ?c1 = Suc 0"
    by (simp_all add: logf_def example_fields)
  have late: "\<not> passesEveryCheck exampleEnv exampleStrategy ?late"
    by (simp add: passesEveryCheck_def example_roundContextChecks example_fields
          claimsFutureTime_def example_claimedTime example_timeNow)
  have good: "passesEveryCheck exampleEnv ?c1 ?good"
    by (simp add: passesEveryCheck_def example_roundContextChecks c1 dataChecks_def
          claimsFutureTime_def example_claimedTime example_timeNow)
  have safe2: "noEmptyReadyBatch exampleEnv exampleStrategy [?late, ?good]"
    by (simp add: noEmptyReadyBatch_def emptyReadyBatch_def example_future_candidate
          example_roundContextChecks example_fields c1)
  have safe1: "noEmptyReadyBatch exampleEnv exampleStrategy [?late]"
    by (simp add: noEmptyReadyBatch_def emptyReadyBatch_def
          example_roundContextChecks example_fields)
  have first2: "firstAcceptable exampleEnv exampleStrategy [?late, ?good] = Some ?good"
    by (simp add: firstAcceptable_Cons late good example_future_candidate)
  have first1: "firstAcceptable exampleEnv exampleStrategy [?late] = None"
    by (simp add: firstAcceptable_Cons late) (simp add: firstAcceptable_def)
  have hash: "Hash (Header ?good) = ''h2''" by (simp add: exampleHeader_def)
  from ConsiderProposedBlocks_first_acceptable [OF safe2, of "()"]
       ConsiderProposedBlocks_first_acceptable [OF safe1, of "()"]
  show ?thesis by (simp add: first2 first1 hash)
qed

theorem future_time_never_accepted_witness:
  "fst (ConsiderProposedBlocks exampleEnv exampleStrategy
          [exampleHeader (emptyDataID 10 0) ''h1'' ''1001'',
           exampleHeader (emptyDataID 10 0) ''h2'' ''900''] ())
     \<noteq> Returned (''h1'', None)"
proof -
  let ?late = "exampleHeader (emptyDataID 10 0) ''h1'' ''1001''"
  let ?good = "exampleHeader (emptyDataID 10 0) ''h2'' ''900''"
  have late: "claimsFutureTime exampleEnv exampleStrategy ?late"
    by (simp add: claimsFutureTime_def example_claimedTime example_timeNow example_fields)
  have other: "Hash (Header ?good) \<noteq> ''h1''"
    by (simp add: exampleHeader_def)
  have "list_all (\<lambda>(ph, c'). Hash (Header ph) = ''h1'' \<longrightarrow> claimsFutureTime exampleEnv c' ph)
          (zip [?late, ?good] (statesBefore exampleEnv exampleStrategy [?late, ?good]))"
    using late other by simp
  then show ?thesis by (rule future_time_never_accepted)
qed

theorem failed_simulation_skips_candidate_witness:
  "fst (ConsiderProposedBlocks exampleEnv
          (exampleStrategy\<lparr>bdrCache :=
             [exampleID3 \<mapsto> \<lparr>Ready = True, Transactions = [''tx1'', ''invalid'', ''tx3''],
                              EncodedData = []\<rparr>,
              exampleID \<mapsto> \<lparr>Ready = True, Transactions = [''tx1''], EncodedData = []\<rparr>]\<rparr>)
          [exampleHeader exampleID3 ''h3'' ''900'', exampleHeader exampleID ''h1'' ''900''] ())
     = Returned (''h1'', None)"
proof -
  let ?bdr3 = "\<lparr>Ready = True, Transactions = [''tx1'', ''invalid'', ''tx3''], EncodedData = []\<rparr>"
  let ?bdr1 = "\<lparr>Ready = True, Transactions = [''tx1''], EncodedData = []\<rparr>"
  let ?c = "exampleStrategy\<lparr>bdrCache := [exampleID3 \<mapsto> ?bdr3, exampleID \<mapsto> ?bdr1]\<rparr>"
  let ?ph3 = "exampleHeader exampleID3 ''h3'' ''900''"
  let ?ph1 = "exampleHeader exampleID ''h1'' ''900''"
  have rc3: "roundContextChecks exampleEnv ?c ?ph3 = Some 3"
    by (rule example_roundContextChecks) (simp_all add: example_fields)
  have cache3: "bdrCache ?c (Header.DataID (Header ?ph3)) = Some ?bdr3"
    by (simp add: exampleHeader_def exampleID_distinct)
  have "stateAfter ?c (Transactions ?bdr3) (Suc 0) = None"
    by (simp add: stepOK_def exampleApply_def exampleStrategy_def)
  then have fails: "\<exists>k<length (Transactions ?bdr3). stateAfter ?c (Transactions ?bdr3) k = None"
    by (intro exI [of _ "Suc 0"]) simp
  from failed_simulation_skips_candidate [OF rc3 _ cache3, of "[?ph1]" "()"] fails
  obtain entry where skip:
    "ConsiderProposedBlocks exampleEnv ?c [?ph3, ?ph1] () =
       ConsiderProposedBlocks exampleEnv (?c\<lparr>log := log ?c @ [entry]\<rparr>) [?ph1] ()"
    by auto
  let ?c' = "?c\<lparr>log := log ?c @ [entry]\<rparr>"
  have rc1: "roundContextChecks exampleEnv ?c' ?ph1 = Some 1"
    by (rule example_roundContextChecks) (simp_all add: example_fields)
  have cache1: "bdrCache ?c' (Header.DataID (Header ?ph1)) = Some ?bdr1"
    by (simp add: exampleHeader_def)
  have "stateAfter ?c' (Transactions ?bdr1) 0 \<noteq> None"
    by (simp add: stepOK_def exampleApply_def exampleStrategy_def)
  then have passes: "\<forall>k<length (Transactions ?bdr1). stateAfter ?c' (Transactions ?bdr1) k \<noteq> None"
    by simp
  from failed_simulation_skips_candidate [OF rc1 _ cache1, of "[]" "()"] passes
  have "considerCandidate exampleEnv ?c' ?ph1 = checkAnnotation exampleEnv ?c' ?ph1"
    by simp
  then have "fst (considerCandidate exampleEnv ?c' ?ph1) = Accept ''h1''"
    by (simp add: checkAnnotation_verdict example_claimedTime claimsFutureTime_def
          example_timeNow example_fields) (simp add: exampleHeader_def)
  then have "fst (ConsiderProposedBlocks exampleEnv ?c' [?ph1] ()) = Returned (''h1'', None)"
    by (rule ConsiderProposedBlocks_Accept)
  with skip show ?thesis by simp
qed

theorem absent_or_pending_data_defers_witness:
  "ConsiderProposedBlocks exampleEnv
     (exampleStrategy\<lparr>pbdr := (\<lambda>cache dataID metadata. (Some (Err ''no peer''), cache))\<rparr>)
     [exampleHeader exampleID ''h1'' ''900''] ()
   = (Returned ('''', Some ErrProposedBlockChoiceNotReady),
      exampleStrategy\<lparr>pbdr := (\<lambda>cache dataID metadata. (Some (Err ''no peer''), cache)),
        calls := [CalledRetrieve exampleID ''/data''],
        log := [(Warn, ''Failed to initiate retrieval of proposed data'')]\<rparr>)
   \<and> ConsiderProposedBlocks exampleEnv
       (exampleStrategy\<lparr>bdrCache :=
          [exampleID \<mapsto> \<lparr>Ready = False, Transactions = [], EncodedData = []\<rparr>]\<rparr>)
       [exampleHeader exampleID ''h1'' ''900''] ()
     = (Returned ('''', Some ErrProposedBlockChoiceNotReady),
        exampleStrategy\<lparr>bdrCache :=
          [exampleID \<mapsto> \<lparr>Ready = False, Transactions = [], EncodedData = []\<rparr>]\<rparr>)"
proof -
  let ?ph = "exampleHeader exampleID ''h1'' ''900''"
  let ?failing = "exampleStrategy\<lparr>pbdr := (\<lambda>cache dataID metadata. (Some (Err ''no peer''), cache))\<rparr>"
  let ?pending = "exampleStrategy\<lparr>bdrCache :=
          [exampleID \<mapsto> \<lparr>Ready = False, Transactions = [], EncodedData = []\<rparr>]\<rparr>"
  have rcf: "roundContextChecks exampleEnv ?failing ?ph = Some 1"
    by (rule example_roundContextChecks) (simp_all add: example_fields)
  have rcp: "roundContextChecks exampleEnv ?pending ?ph = Some 1"
    by (rule example_roundContextChecks) (simp_all add: example_fields)
  have absent: "bdrCache ?failing (Header.DataID (Header ?ph)) = None"
    by (simp add: example_fields)
  have pending: "bdrCache ?pending (Header.DataID (Header ?ph))
                   = Some \<lparr>Ready = False, Transactions = [], EncodedData = []\<rparr>"
    by (simp add: exampleHeader_def)
  have a: "ConsiderProposedBlocks exampleEnv ?failing [?ph] ()
           = (Returned ('''', Some ErrProposedBlockChoiceNotReady),
              ?failing\<lparr>calls := [CalledRetrieve exampleID ''/data''],
                log := [(Warn, ''Failed to initiate retrieval of proposed data'')]\<rparr>)"
    using absent_or_pending_data_defers [OF rcf, of "[]" "()"] absent
    by (simp add: exampleHeader_def exampleStrategy_def)
  have b: "ConsiderProposedBlocks exampleEnv ?pending [?ph] ()
           = (Returned ('''', Some ErrProposedBlockChoiceNotReady), ?pending)"
    using absent_or_pending_data_defers [OF rcp, of "[]" "()"] pending
    by simp
  from a b show ?thesis by simp
qed

end
